theory Spec2Isabelle
  imports Complex_Main "HOL-Library.AList" "HOL-Library.Sublist"
begin

section \<open>Strings of the platform\<close>

text \<open>
  An ECMAScript string is a sequence of UTF-16 code units. A code unit is modelled as a
  natural number (below 65536 in every string the platform can build), a string as the
  list of its code units. \<open>str\<close> turns a literal of this theory into such a list, so
  that \<open>str ''k=v''\<close> is the string of the three units 107, 61, 118.
\<close>

type_synonym ustring = "nat list"

definition str :: "string \<Rightarrow> ustring" where
  "str s = map of_char s"

abbreviation (input) ch :: "char \<Rightarrow> nat" where
  "ch c \<equiv> of_char c"

text \<open>\<open>String.prototype.split\<close> with a separator of one unit. The result is never empty:
  the empty string splits into one empty piece.\<close>

fun split :: "nat \<Rightarrow> ustring \<Rightarrow> ustring list" where
  "split sep [] = [[]]"
| "split sep (c # cs) =
     (if c = sep then [] # split sep cs
      else (case split sep cs of
              [] \<Rightarrow> [[c]]
            | p # ps \<Rightarrow> (c # p) # ps))"

text \<open>White space and line terminators of ECMAScript, which \<open>String.prototype.trim\<close>
  strips from both ends.\<close>

definition js_space :: "nat \<Rightarrow> bool" where
  "js_space c \<longleftrightarrow>
     c = 9 \<or> c = 10 \<or> c = 11 \<or> c = 12 \<or> c = 13 \<or> c = 32 \<or> c = 160 \<or> c = 5760 \<or>
     (8192 \<le> c \<and> c \<le> 8202) \<or> c = 8232 \<or> c = 8233 \<or> c = 8239 \<or> c = 8287 \<or>
     c = 12288 \<or> c = 65279"

definition trim :: "ustring \<Rightarrow> ustring" where
  "trim s = rev (dropWhile js_space (rev (dropWhile js_space s)))"

text \<open>Joining pieces with a separator string, as \<open>Array.prototype.join\<close> does.\<close>

fun join :: "ustring \<Rightarrow> ustring list \<Rightarrow> ustring" where
  "join sep [] = []"
| "join sep [x] = x"
| "join sep (x # y # ys) = x @ sep @ join sep (y # ys)"

text \<open>Decimal digits of a natural number, most significant first.\<close>

fun dec_digits :: "nat \<Rightarrow> ustring" where
  "dec_digits n = (if n < 10 then [48 + n] else dec_digits (n div 10) @ [48 + n mod 10])"

declare dec_digits.simps [simp del]

definition is_digit :: "nat \<Rightarrow> bool" where
  "is_digit c \<longleftrightarrow> 48 \<le> c \<and> c \<le> 57"

text \<open>The number a string of decimal digits denotes.\<close>

definition digits_value :: "ustring \<Rightarrow> nat" where
  "digits_value ds = foldl (\<lambda>a d. 10 * a + (d - 48)) 0 ds"

text \<open>The value of one hexadecimal digit, of either case.\<close>

definition unhex :: "nat \<Rightarrow> nat option" where
  "unhex c =
     (if 48 \<le> c \<and> c \<le> 57 then Some (c - 48)
      else if 65 \<le> c \<and> c \<le> 70 then Some (c - 55)
      else if 97 \<le> c \<and> c \<le> 102 then Some (c - 87)
      else None)"

definition is_high_surrogate :: "nat \<Rightarrow> bool" where
  "is_high_surrogate c \<longleftrightarrow> 55296 \<le> c \<and> c \<le> 56319"

definition is_low_surrogate :: "nat \<Rightarrow> bool" where
  "is_low_surrogate c \<longleftrightarrow> 56320 \<le> c \<and> c \<le> 57343"

section \<open>Values and JSON\<close>

text \<open>
  The values the adapters store and return: \<open>undefined\<close>, \<open>null\<close>, booleans, numbers,
  strings, arrays and plain objects (the own properties in order). A number is the finite
  decimal \<open>m * 10 ^ e\<close>, written \<open>JNum m e\<close>; the rounding of a decimal to the nearest
  binary64 value is floating point and is not part of the model, and neither are the
  values on which \<open>JSON.stringify\<close> raises (cyclic objects, BigInt).
  \<open>null\<close> is also what every read of the adapters returns for "not found".
\<close>

datatype jsval =
    JUndefined
  | JNull
  | JBool bool
  | JNum int int
  | JStr ustring
  | JArr "jsval list"
  | JObj "(ustring \<times> jsval) list"

function strip_zeros :: "int \<Rightarrow> int \<Rightarrow> int \<times> int" where
  "strip_zeros m e =
     (if m \<noteq> 0 \<and> m mod 10 = 0 then strip_zeros (m div 10) (e + 1) else (m, e))"
  by pat_completeness auto
termination
  by (relation "measure (\<lambda>(m, e). nat \<bar>m\<bar>)") auto

declare strip_zeros.simps [simp del]

definition norm_num :: "int \<Rightarrow> int \<Rightarrow> int \<times> int" where
  "norm_num m e = (if m = 0 then (0, 0) else strip_zeros m e)"

text \<open>\<open>Number::toString\<close> in radix 10, on the decimal \<open>m * 10 ^ e\<close>: with \<open>k\<close> digits and the
  decimal point after the \<open>n\<close>-th digit.\<close>

definition number_to_string :: "int \<Rightarrow> int \<Rightarrow> ustring" where
  "number_to_string m0 e0 =
     (case norm_num m0 e0 of (m, e) \<Rightarrow>
        if m = 0 then str ''0''
        else
          let s = dec_digits (nat \<bar>m\<bar>);
              k = int (length s);
              n = k + e;
              body =
                (if k \<le> n \<and> n \<le> 21 then s @ replicate (nat (n - k)) (ch CHR ''0'')
                 else if 0 < n \<and> n \<le> 21 then take (nat n) s @ str ''.'' @ drop (nat n) s
                 else if - 6 < n \<and> n \<le> 0 then str ''0.'' @ replicate (nat (- n)) (ch CHR ''0'') @ s
                 else
                   let x = n - 1;
                       es = (if x < 0 then str ''-'' else str ''+'') @ dec_digits (nat \<bar>x\<bar>)
                   in if k = 1 then s @ str ''e'' @ es
                      else take 1 s @ str ''.'' @ drop 1 s @ str ''e'' @ es)
          in (if m < 0 then str ''-'' else []) @ body)"

definition lower_hexdigit :: "nat \<Rightarrow> nat" where
  "lower_hexdigit n = (if n < 10 then 48 + n else 87 + n)"

text \<open>The escape \<open>\uXXXX\<close> of one code unit; 92 is the backslash, 34 the double quote.\<close>

definition unicode_escape :: "nat \<Rightarrow> ustring" where
  "unicode_escape c =
     [92, 117, lower_hexdigit (c div 4096 mod 16), lower_hexdigit (c div 256 mod 16),
      lower_hexdigit (c div 16 mod 16), lower_hexdigit (c mod 16)]"

fun quote_units :: "ustring \<Rightarrow> ustring" where
  "quote_units [] = []"
| "quote_units (c # cs) =
     (if c = 8 then [92, 98] @ quote_units cs
      else if c = 9 then [92, 116] @ quote_units cs
      else if c = 10 then [92, 110] @ quote_units cs
      else if c = 12 then [92, 102] @ quote_units cs
      else if c = 13 then [92, 114] @ quote_units cs
      else if c = 34 then [92, 34] @ quote_units cs
      else if c = 92 then [92, 92] @ quote_units cs
      else if c < 32 then unicode_escape c @ quote_units cs
      else if is_high_surrogate c then
        (case cs of
           [] \<Rightarrow> unicode_escape c
         | d # ds \<Rightarrow>
             if is_low_surrogate d then c # d # quote_units ds
             else unicode_escape c @ quote_units cs)
      else if is_low_surrogate c then unicode_escape c @ quote_units cs
      else c # quote_units cs)"

definition quote_json :: "ustring \<Rightarrow> ustring" where
  "quote_json s = [34] @ quote_units s @ [34]"

text \<open>\<open>JSON.stringify\<close>; \<open>None\<close> is the result \<open>undefined\<close>. In an array \<open>undefined\<close> is
  written \<open>null\<close>, in an object a property of that value is left out.\<close>

fun JSON_stringify :: "jsval \<Rightarrow> ustring option" where
  "JSON_stringify JUndefined = None"
| "JSON_stringify JNull = Some (str ''null'')"
| "JSON_stringify (JBool b) = Some (if b then str ''true'' else str ''false'')"
| "JSON_stringify (JNum m e) = Some (number_to_string m e)"
| "JSON_stringify (JStr s) = Some (quote_json s)"
| "JSON_stringify (JArr xs) =
     Some (str ''['' @
           join (str '','')
             (map (\<lambda>x. case JSON_stringify x of None \<Rightarrow> str ''null'' | Some t \<Rightarrow> t) xs) @
           str '']'')"
| "JSON_stringify (JObj ps) =
     Some (str ''{'' @
           join (str '','')
             (concat (map (\<lambda>p. case JSON_stringify (snd p) of
                                   None \<Rightarrow> []
                                 | Some t \<Rightarrow> [quote_json (fst p) @ str '':'' @ t]) ps)) @
           str ''}'')"

subsection \<open>Reading JSON text\<close>

datatype token = TLBrace | TRBrace | TLBrack | TRBrack | TColon | TComma | TStr ustring | TVal jsval

text \<open>The rest of a string literal after its opening quote: the units read so far (in
  reverse), then the text. The result is the string and the text after the closing quote.\<close>

fun lex_string :: "ustring \<Rightarrow> ustring \<Rightarrow> (ustring \<times> ustring) option" where
  "lex_string acc [] = None"
| "lex_string acc (c # cs) =
     (if c = 34 then Some (rev acc, cs)
      else if c < 32 then None
      else if c = 92 then
        (case cs of
           [] \<Rightarrow> None
         | e # es \<Rightarrow>
             if e = 34 \<or> e = 92 \<or> e = 47 then lex_string (e # acc) es
             else if e = 98 then lex_string (8 # acc) es
             else if e = 102 then lex_string (12 # acc) es
             else if e = 110 then lex_string (10 # acc) es
             else if e = 114 then lex_string (13 # acc) es
             else if e = 116 then lex_string (9 # acc) es
             else if e = 117 then
               (case es of
                  h1 # h2 # h3 # h4 # r \<Rightarrow>
                    (case (unhex h1, unhex h2, unhex h3, unhex h4) of
                       (Some a, Some b, Some c', Some d) \<Rightarrow>
                         lex_string ((a * 4096 + b * 256 + c' * 16 + d) # acc) r
                     | _ \<Rightarrow> None)
                | _ \<Rightarrow> None)
             else None)
      else lex_string (c # acc) cs)"

definition lex_fraction :: "ustring \<Rightarrow> (ustring \<times> ustring) option" where
  "lex_fraction cs =
     (case cs of
        [] \<Rightarrow> Some ([], [])
      | c # r \<Rightarrow>
          if c = 46 then
            (let fd = takeWhile is_digit r
             in if fd = [] then None else Some (fd, drop (length fd) r))
          else Some ([], cs))"

definition lex_exponent :: "ustring \<Rightarrow> (int \<times> ustring) option" where
  "lex_exponent cs =
     (case cs of
        [] \<Rightarrow> Some (0, [])
      | c # r \<Rightarrow>
          if c = 101 \<or> c = 69 then
            (let sg = (case r of [] \<Rightarrow> 1 | s # _ \<Rightarrow> if s = 45 then - 1 else 1);
                 r1 = (case r of [] \<Rightarrow> [] | s # r' \<Rightarrow> if s = 43 \<or> s = 45 then r' else r);
                 ed = takeWhile is_digit r1
             in if ed = [] then None
                else Some (sg * int (digits_value ed), drop (length ed) r1))
          else Some (0, cs))"

definition lex_number :: "ustring \<Rightarrow> (jsval \<times> ustring) option" where
  "lex_number cs =
     (let neg = (case cs of [] \<Rightarrow> False | c # _ \<Rightarrow> c = 45);
          cs1 = (if neg then tl cs else cs);
          ip = (case cs1 of [] \<Rightarrow> [] | c # _ \<Rightarrow> if c = 48 then [48] else takeWhile is_digit cs1)
      in if ip = [] then None
         else
           (case lex_fraction (drop (length ip) cs1) of
              None \<Rightarrow> None
            | Some (fd, cs3) \<Rightarrow>
                (case lex_exponent cs3 of
                   None \<Rightarrow> None
                 | Some (ex, cs4) \<Rightarrow>
                     let m = int (digits_value (ip @ fd))
                     in (case norm_num (if neg then - m else m) (ex - int (length fd)) of
                           (m', e') \<Rightarrow> Some (JNum m' e', cs4)))))"

text \<open>The tokens of a text. The first argument counts the units still to skip because the
  token read last has taken them, which keeps the recursion on the text itself.\<close>

fun lex :: "nat \<Rightarrow> ustring \<Rightarrow> token list option" where
  "lex n [] = Some []"
| "lex (Suc n) (c # cs) = lex n cs"
| "lex 0 (c # cs) =
     (if c = 32 \<or> c = 9 \<or> c = 10 \<or> c = 13 then lex 0 cs
      else if c = ch CHR ''{'' then map_option ((#) TLBrace) (lex 0 cs)
      else if c = ch CHR ''}'' then map_option ((#) TRBrace) (lex 0 cs)
      else if c = ch CHR ''['' then map_option ((#) TLBrack) (lex 0 cs)
      else if c = ch CHR '']'' then map_option ((#) TRBrack) (lex 0 cs)
      else if c = ch CHR '':'' then map_option ((#) TColon) (lex 0 cs)
      else if c = ch CHR '','' then map_option ((#) TComma) (lex 0 cs)
      else if c = 34 then
        (case lex_string [] cs of
           None \<Rightarrow> None
         | Some (s, r) \<Rightarrow> map_option ((#) (TStr s)) (lex (length cs - length r) cs))
      else if c = ch CHR ''-'' \<or> is_digit c then
        (case lex_number (c # cs) of
           None \<Rightarrow> None
         | Some (v, r) \<Rightarrow> map_option ((#) (TVal v)) (lex (length cs - length r) cs))
      else if take 4 (c # cs) = str ''true'' then map_option ((#) (TVal (JBool True))) (lex 3 cs)
      else if take 5 (c # cs) = str ''false'' then map_option ((#) (TVal (JBool False))) (lex 4 cs)
      else if take 4 (c # cs) = str ''null'' then map_option ((#) (TVal JNull)) (lex 3 cs)
      else None)"

text \<open>An object keeps one property per key: a repeated key takes the later value at the
  place of the first.\<close>

definition set_props :: "(ustring \<times> jsval) list \<Rightarrow> (ustring \<times> jsval) list" where
  "set_props ps = foldl (\<lambda>acc p. AList.update (fst p) (snd p) acc) [] ps"

text \<open>The containers that are open while a value is read: an array with its elements so
  far, an object with its properties so far and the key that waits for its value (both in
  reverse).\<close>

datatype frame = FArr "jsval list" | FObj "(ustring \<times> jsval) list" ustring

fun take_value :: "frame list \<Rightarrow> token list \<Rightarrow> jsval option"
  and give_value :: "jsval \<Rightarrow> frame list \<Rightarrow> token list \<Rightarrow> jsval option" where
  "take_value st [] = None"
| "take_value st (t # ts) =
     (case t of
        TVal v \<Rightarrow> give_value v st ts
      | TStr s \<Rightarrow> give_value (JStr s) st ts
      | TLBrack \<Rightarrow>
          (case ts of
             [] \<Rightarrow> None
           | u # us \<Rightarrow> if u = TRBrack then give_value (JArr []) st us
                       else take_value (FArr [] # st) ts)
      | TLBrace \<Rightarrow>
          (case ts of
             [] \<Rightarrow> None
           | u # us \<Rightarrow>
               (case u of
                  TRBrace \<Rightarrow> give_value (JObj []) st us
                | TStr k \<Rightarrow>
                    (case us of
                       [] \<Rightarrow> None
                     | w # ws \<Rightarrow> if w = TColon then take_value (FObj [] k # st) ws else None)
                | _ \<Rightarrow> None))
      | _ \<Rightarrow> None)"
| "give_value v [] ts = (if ts = [] then Some v else None)"
| "give_value v (f # st) [] = None"
| "give_value v (FArr xs # st) (t # ts) =
     (if t = TComma then take_value (FArr (v # xs) # st) ts
      else if t = TRBrack then give_value (JArr (rev (v # xs))) st ts
      else None)"
| "give_value v (FObj ps k # st) (t # ts) =
     (if t = TRBrace then give_value (JObj (set_props (rev ((k, v) # ps)))) st ts
      else if t = TComma then
        (case ts of
           [] \<Rightarrow> None
         | u # us \<Rightarrow>
             (case u of
                TStr k' \<Rightarrow>
                  (case us of
                     [] \<Rightarrow> None
                   | w # ws \<Rightarrow>
                       if w = TColon then take_value (FObj ((k, v) # ps) k' # st) ws else None)
              | _ \<Rightarrow> None))
      else None)"

text \<open>\<open>JSON.parse\<close>; \<open>None\<close> is the SyntaxError it raises.\<close>

definition JSON_parse :: "ustring \<Rightarrow> jsval option" where
  "JSON_parse text = (case lex 0 text of None \<Rightarrow> None | Some ts \<Rightarrow> take_value [] ts)"

section \<open>Percent encoding\<close>

text \<open>
  \<open>encodeURIComponent\<close> keeps letters, digits and \<open>- _ . ! ~ * ' ( )\<close> and writes every
  other code point as the escaped octets of its UTF-8 form. It raises a URIError on a
  surrogate that has no partner; \<open>None\<close> is that error. A list element that is no code
  unit at all is refused in the same way.
\<close>

definition uri_unreserved :: "nat \<Rightarrow> bool" where
  "uri_unreserved c \<longleftrightarrow>
     (65 \<le> c \<and> c \<le> 90) \<or> (97 \<le> c \<and> c \<le> 122) \<or> (48 \<le> c \<and> c \<le> 57) \<or>
     c = ch CHR ''-'' \<or> c = ch CHR ''_'' \<or> c = ch CHR ''.'' \<or> c = ch CHR ''!'' \<or>
     c = ch CHR ''~'' \<or> c = ch CHR ''*'' \<or> c = 39 \<or> c = ch CHR ''('' \<or> c = ch CHR '')''"

definition upper_hexdigit :: "nat \<Rightarrow> nat" where
  "upper_hexdigit n = (if n < 10 then 48 + n else 55 + n)"

text \<open>One octet as \<open>%XX\<close>; 37 is the percent sign.\<close>

definition percent_octet :: "nat \<Rightarrow> ustring" where
  "percent_octet b = [37, upper_hexdigit (b div 16), upper_hexdigit (b mod 16)]"

definition utf8_octets :: "nat \<Rightarrow> nat list" where
  "utf8_octets v =
     (if v < 128 then [v]
      else if v < 2048 then [192 + v div 64, 128 + v mod 64]
      else if v < 65536 then [224 + v div 4096, 128 + v div 64 mod 64, 128 + v mod 64]
      else [240 + v div 262144, 128 + v div 4096 mod 64, 128 + v div 64 mod 64, 128 + v mod 64])"

definition escape_code_point :: "nat \<Rightarrow> ustring" where
  "escape_code_point v = concat (map percent_octet (utf8_octets v))"

fun encodeURIComponent :: "ustring \<Rightarrow> ustring option" where
  "encodeURIComponent [] = Some []"
| "encodeURIComponent (c # cs) =
     (if uri_unreserved c then map_option ((#) c) (encodeURIComponent cs)
      else if is_low_surrogate c \<or> 65536 \<le> c then None
      else if is_high_surrogate c then
        (case cs of
           [] \<Rightarrow> None
         | d # ds \<Rightarrow>
             if is_low_surrogate d then
               map_option
                 ((@) (escape_code_point (65536 + (c - 55296) * 1024 + (d - 56320))))
                 (encodeURIComponent ds)
             else None)
      else map_option ((@) (escape_code_point c)) (encodeURIComponent cs))"

definition hex_octet :: "nat \<Rightarrow> nat \<Rightarrow> nat option" where
  "hex_octet a b =
     (case unhex a of
        None \<Rightarrow> None
      | Some x \<Rightarrow> (case unhex b of None \<Rightarrow> None | Some y \<Rightarrow> Some (16 * x + y)))"

text \<open>The \<open>n\<close> continuation octets \<open>%XX\<close> at the head of a text, their payloads added to
  the value \<open>v\<close> read so far.\<close>

fun continuation :: "nat \<Rightarrow> nat \<Rightarrow> ustring \<Rightarrow> nat option" where
  "continuation 0 v cs = Some v"
| "continuation (Suc n) v (p # a # b # cs) =
     (if p = 37 then
        (case hex_octet a b of
           None \<Rightarrow> None
         | Some x \<Rightarrow> if 128 \<le> x \<and> x < 192 then continuation n (64 * v + (x - 128)) cs else None)
      else None)"
| "continuation (Suc n) v cs = None"

text \<open>Whether \<open>v\<close>, read from \<open>n\<close> octets, is a code point in its shortest form.\<close>

definition utf8_valid :: "nat \<Rightarrow> nat \<Rightarrow> bool" where
  "utf8_valid n v \<longleftrightarrow>
     (n = 2 \<and> 128 \<le> v) \<or>
     (n = 3 \<and> 2048 \<le> v \<and> \<not> (55296 \<le> v \<and> v \<le> 57343)) \<or>
     (n = 4 \<and> 65536 \<le> v \<and> v \<le> 1114111)"

definition utf16_units :: "nat \<Rightarrow> ustring" where
  "utf16_units v =
     (if v < 65536 then [v]
      else [55296 + (v - 65536) div 1024, 56320 + (v - 65536) mod 1024])"

text \<open>The decoding of a text; the first argument counts the units still to skip because
  the escape sequence read last has taken them. \<open>None\<close> is the URIError.\<close>

fun decode_from :: "nat \<Rightarrow> ustring \<Rightarrow> ustring option" where
  "decode_from n [] = Some []"
| "decode_from (Suc n) (c # cs) = decode_from n cs"
| "decode_from 0 (c # cs) =
     (if c \<noteq> 37 then map_option ((#) c) (decode_from 0 cs)
      else
        (case cs of
           a # b # r \<Rightarrow>
             (case hex_octet a b of
                None \<Rightarrow> None
              | Some x \<Rightarrow>
                  if x < 128 then map_option ((#) x) (decode_from 2 cs)
                  else if x < 192 \<or> 248 \<le> x then None
                  else
                    let n = (if x < 224 then 2 else if x < 240 then 3 else 4);
                        v0 = (if x < 224 then x - 192 else if x < 240 then x - 224 else x - 240)
                    in (case continuation (n - 1) v0 r of
                          None \<Rightarrow> None
                        | Some v \<Rightarrow>
                            if utf8_valid n v
                            then map_option ((@) (utf16_units v)) (decode_from (3 * n - 1) cs)
                            else None))
         | _ \<Rightarrow> None))"

definition decodeURIComponent :: "ustring \<Rightarrow> ustring option" where
  "decodeURIComponent s = decode_from 0 s"

section \<open>Numbers\<close>

text \<open>
  A number of ECMAScript is a number of the binary64 format of IEEE 754: a finite value,
  here the rational it stands for, one of the two infinities, or \<open>NaN\<close>. The two zeros are
  one value here; no operation below tells them apart. \<open>round64\<close> is the rounding of an
  exact result into the format, to the nearest value and to the even one of two nearest
  values: 53 binary digits from the exponent \<open>-1022\<close> on, fewer below, and an infinity
  where the rounded magnitude reaches \<open>2^1024\<close>, that is, the exponent 1024.
\<close>

datatype number = Finite rat | PlusInfinity | MinusInfinity | NaN

text \<open>The number of binary digits of a whole number.\<close>

function bits :: "int \<Rightarrow> nat" where
  "bits n = (if n \<le> 0 then 0 else Suc (bits (n div 2)))"
  by pat_completeness auto
termination by (relation "measure nat") auto

declare bits.simps [simp del]

text \<open>The exponent \<open>e\<close> with \<open>2^e \<le> x < 2^(e+1)\<close>, for a positive \<open>x\<close>.\<close>

definition binade :: "rat \<Rightarrow> int" where
  "binade x =
     (case quotient_of x of
        (p, q) \<Rightarrow>
          let e = int (bits p) - int (bits q)
          in if 2 powi e \<le> x then e else e - 1)"

definition round_half_even :: "rat \<Rightarrow> int" where
  "round_half_even m =
     (let f = \<lfloor>m\<rfloor>;
          d = m - of_int f
      in if d < 1 / 2 then f else if 1 / 2 < d then f + 1 else if even f then f else f + 1)"

text \<open>The least magnitude beyond the finite numbers of the format.\<close>

definition huge :: rat where
  "huge = 2 powi 1024"

definition round64 :: "rat \<Rightarrow> number" where
  "round64 x =
     (if x = 0 then Finite 0
      else
        let q = 2 powi (max (binade \<bar>x\<bar>) (- 1022) - 52);
            r = of_int (round_half_even (\<bar>x\<bar> / q)) * q
        in if 1024 \<le> binade r then (if 0 < x then PlusInfinity else MinusInfinity)
           else Finite (if 0 < x then r else - r))"

definition positive :: "number \<Rightarrow> bool" where
  "positive a = (case a of Finite x \<Rightarrow> 0 < x | PlusInfinity \<Rightarrow> True | _ \<Rightarrow> False)"

text \<open>The operators \<open>*\<close> and \<open>+\<close> on numbers.\<close>

definition times64 :: "number \<Rightarrow> number \<Rightarrow> number" where
  "times64 a b =
     (case (a, b) of
        (Finite x, Finite y) \<Rightarrow> round64 (x * y)
      | _ \<Rightarrow>
          if a = NaN \<or> b = NaN \<or> a = Finite 0 \<or> b = Finite 0 then NaN
          else if positive a = positive b then PlusInfinity else MinusInfinity)"

definition plus64 :: "number \<Rightarrow> number \<Rightarrow> number" where
  "plus64 a b =
     (case (a, b) of
        (Finite x, Finite y) \<Rightarrow> round64 (x + y)
      | (Finite x, _) \<Rightarrow> b
      | (_, Finite y) \<Rightarrow> a
      | _ \<Rightarrow> if a = b then a else NaN)"

text \<open>The conversion to a truth value that a test applies: 0 and \<open>NaN\<close> count as false.\<close>

definition to_boolean :: "number \<Rightarrow> bool" where
  "to_boolean a \<longleftrightarrow> a \<noteq> Finite 0 \<and> a \<noteq> NaN"

section \<open>Dates\<close>

text \<open>
  A \<open>Date\<close> object holds a time value, the milliseconds since 1 January 1970 UTC, or no
  time at all. \<open>time_clip\<close> is what \<open>setTime\<close> stores: the argument cut to a whole
  number, and no time for an argument that is not finite or lies beyond 8.64e15
  milliseconds on either side.
\<close>

datatype date = Date int | Invalid_Date

definition trunc :: "rat \<Rightarrow> int" where
  "trunc t = (if t < 0 then - \<lfloor>- t\<rfloor> else \<lfloor>t\<rfloor>)"

definition time_clip :: "number \<Rightarrow> date" where
  "time_clip a =
     (case a of
        Finite t \<Rightarrow> if \<bar>t\<bar> > 8640000000000000 then Invalid_Date else Date (trunc t)
      | _ \<Rightarrow> Invalid_Date)"

text \<open>Year, month (1 to 12) and day of the month of a day counted from 1 January 1970.\<close>

definition civil_from_days :: "int \<Rightarrow> int \<times> int \<times> int" where
  "civil_from_days z0 =
     (let z = z0 + 719468;
          era = z div 146097;
          doe = z - era * 146097;
          yoe = (doe - doe div 1460 + doe div 36524 - doe div 146096) div 365;
          doy = doe - (365 * yoe + yoe div 4 - yoe div 100);
          mp = (5 * doy + 2) div 153;
          d = doy - (153 * mp + 2) div 5 + 1;
          m = (if mp < 10 then mp + 3 else mp - 9)
      in (yoe + era * 400 + (if m \<le> 2 then 1 else 0), m, d))"

definition days_from_civil :: "int \<Rightarrow> int \<Rightarrow> int \<Rightarrow> int" where
  "days_from_civil y0 m d =
     (let y = (if m \<le> 2 then y0 - 1 else y0);
          era = y div 400;
          yoe = y - era * 400;
          doy = (153 * (if m > 2 then m - 3 else m + 9) + 2) div 5 + d - 1;
          doe = yoe * 365 + yoe div 4 - yoe div 100 + doy
      in era * 146097 + doe - 719468)"

definition weekday_name :: "int \<Rightarrow> ustring" where
  "weekday_name k =
     (if k = 0 then str ''Sun'' else if k = 1 then str ''Mon'' else if k = 2 then str ''Tue''
      else if k = 3 then str ''Wed'' else if k = 4 then str ''Thu'' else if k = 5 then str ''Fri''
      else str ''Sat'')"

definition month_name :: "int \<Rightarrow> ustring" where
  "month_name m =
     (if m = 1 then str ''Jan'' else if m = 2 then str ''Feb'' else if m = 3 then str ''Mar''
      else if m = 4 then str ''Apr'' else if m = 5 then str ''May'' else if m = 6 then str ''Jun''
      else if m = 7 then str ''Jul'' else if m = 8 then str ''Aug'' else if m = 9 then str ''Sep''
      else if m = 10 then str ''Oct'' else if m = 11 then str ''Nov'' else str ''Dec'')"

definition pad_digits :: "nat \<Rightarrow> nat \<Rightarrow> ustring" where
  "pad_digits w n = replicate (w - length (dec_digits n)) (ch CHR ''0'') @ dec_digits n"

text \<open>\<open>Date.prototype.toUTCString\<close>, as in \<open>Thu, 01 Jan 1970 00:00:00 GMT\<close>.\<close>

definition toUTCString :: "date \<Rightarrow> ustring" where
  "toUTCString dt =
     (case dt of
        Invalid_Date \<Rightarrow> str ''Invalid Date''
      | Date t \<Rightarrow>
          let day = t div 86400000;
              ms = t mod 86400000
          in (case civil_from_days day of
                (y, m, d) \<Rightarrow>
                  weekday_name ((day + 4) mod 7) @ str '', '' @ pad_digits 2 (nat d) @ str '' '' @
                  month_name m @ str '' '' @
                  (if y < 0 then str ''-'' else []) @ pad_digits 4 (nat \<bar>y\<bar>) @ str '' '' @
                  pad_digits 2 (nat (ms div 3600000)) @ str '':'' @
                  pad_digits 2 (nat (ms div 60000 mod 60)) @ str '':'' @
                  pad_digits 2 (nat (ms div 1000 mod 60)) @ str '' GMT''))"

section \<open>The cookie store behind \<open>document.cookie\<close>\<close>

text \<open>
  What the browser does with the strings the adapter writes to \<open>document.cookie\<close> and
  what it hands back is the user agent of RFC 6265, sections 5.1 to 5.4, for one document
  and a script as the caller (a "non-HTTP API"). Not modelled: the list of public
  suffixes, limits on the size and number of cookies, the name prefixes \<open>__Secure-\<close> and
  \<open>__Host-\<close>, and the refusal of an IP address as a domain. Times are in milliseconds, as
  in a \<open>Date\<close>.
\<close>

record cookie =
  c_name :: ustring
  c_value :: ustring
  c_domain :: ustring
  c_host_only :: bool
  c_path :: ustring
  c_expiry :: "int option"
  c_secure :: bool
  c_http_only :: bool

text \<open>A document: the cookies of its browser in order of creation, the current time, and
  the host, path and channel of the document's address.\<close>

record document =
  jar :: "cookie list"
  clock :: int
  host :: ustring
  uri_path :: ustring
  secure_channel :: bool

definition wsp :: "nat \<Rightarrow> bool" where
  "wsp c \<longleftrightarrow> c = 32 \<or> c = 9"

definition trim_wsp :: "ustring \<Rightarrow> ustring" where
  "trim_wsp s = rev (dropWhile wsp (rev (dropWhile wsp s)))"

definition to_lower :: "nat \<Rightarrow> nat" where
  "to_lower c = (if 65 \<le> c \<and> c \<le> 90 then c + 32 else c)"

fun split_on :: "(nat \<Rightarrow> bool) \<Rightarrow> ustring \<Rightarrow> ustring list" where
  "split_on P [] = [[]]"
| "split_on P (c # cs) =
     (if P c then [] # split_on P cs
      else (case split_on P cs of
              [] \<Rightarrow> [[c]]
            | p # ps \<Rightarrow> (c # p) # ps))"

subsection \<open>Dates in a cookie (RFC 6265, 5.1.1)\<close>

definition date_delimiter :: "nat \<Rightarrow> bool" where
  "date_delimiter c \<longleftrightarrow>
     c = 9 \<or> (32 \<le> c \<and> c \<le> 47) \<or> (59 \<le> c \<and> c \<le> 64) \<or> (91 \<le> c \<and> c \<le> 96) \<or>
     (123 \<le> c \<and> c \<le> 126)"

definition date_tokens :: "ustring \<Rightarrow> ustring list" where
  "date_tokens s = filter (\<lambda>t. t \<noteq> []) (split_on date_delimiter s)"

text \<open>Between \<open>lo\<close> and \<open>hi\<close> digits at the head of a token, as a number.\<close>

definition leading_digits :: "nat \<Rightarrow> nat \<Rightarrow> ustring \<Rightarrow> int option" where
  "leading_digits lo hi s =
     (let ds = takeWhile is_digit s
      in if lo \<le> length ds \<and> length ds \<le> hi then Some (int (digits_value ds)) else None)"

definition all_digits :: "ustring \<Rightarrow> int option" where
  "all_digits s =
     (if s \<noteq> [] \<and> length s \<le> 2 \<and> list_all is_digit s then Some (int (digits_value s))
      else None)"

definition hms_time :: "ustring \<Rightarrow> (int \<times> int \<times> int) option" where
  "hms_time tok =
     (case split (ch CHR '':'') tok of
        h # m # s # _ \<Rightarrow>
          (case all_digits h of
             None \<Rightarrow> None
           | Some a \<Rightarrow>
               (case all_digits m of
                  None \<Rightarrow> None
                | Some b \<Rightarrow>
                    (case leading_digits 1 2 s of None \<Rightarrow> None | Some c \<Rightarrow> Some (a, b, c))))
      | _ \<Rightarrow> None)"

definition month_of :: "ustring \<Rightarrow> int option" where
  "month_of tok =
     map_of (map (\<lambda>m. (map to_lower (month_name m), m)) [1, 2, 3, 4, 5, 6, 7, 8, 9, 10, 11, 12])
       (map to_lower (take 3 tok))"

type_synonym date_fields = "(int \<times> int \<times> int) option \<times> int option \<times> int option \<times> int option"

definition date_step :: "date_fields \<Rightarrow> ustring \<Rightarrow> date_fields" where
  "date_step st tok =
     (case st of (tm, dy, mo, yr) \<Rightarrow>
        if tm = None \<and> hms_time tok \<noteq> None then (hms_time tok, dy, mo, yr)
        else if dy = None \<and> leading_digits 1 2 tok \<noteq> None then (tm, leading_digits 1 2 tok, mo, yr)
        else if mo = None \<and> month_of tok \<noteq> None then (tm, dy, month_of tok, yr)
        else if yr = None \<and> leading_digits 2 4 tok \<noteq> None then (tm, dy, mo, leading_digits 2 4 tok)
        else st)"

definition parse_cookie_date :: "ustring \<Rightarrow> int option" where
  "parse_cookie_date s =
     (case foldl date_step (None, None, None, None) (date_tokens s) of
        (Some (h, mi, se), Some d, Some mo, Some y0) \<Rightarrow>
          let y = (if 70 \<le> y0 \<and> y0 \<le> 99 then y0 + 1900
                   else if y0 \<le> 69 then y0 + 2000 else y0)
          in if d < 1 \<or> 31 < d \<or> y < 1601 \<or> 23 < h \<or> 59 < mi \<or> 59 < se then None
             else
               let days = days_from_civil y mo d
               in if civil_from_days days = (y, mo, d)
                  then Some (1000 * (days * 86400 + h * 3600 + mi * 60 + se))
                  else None
      | _ \<Rightarrow> None)"

subsection \<open>Reading a set-cookie string (RFC 6265, 5.2)\<close>

text \<open>Name and value of the first part, as browsers read it and the revision of the RFC
  has it (draft-ietf-httpbis-rfc6265bis, 5.6): a part without \<open>=\<close> is a value without a
  name, and there is no cookie where both are empty.\<close>

definition name_value :: "ustring \<Rightarrow> (ustring \<times> ustring) option" where
  "name_value pair =
     (let n = (if ch CHR ''='' \<in> set pair
               then trim_wsp (takeWhile (\<lambda>c. c \<noteq> ch CHR ''='') pair) else []);
          v = (if ch CHR ''='' \<in> set pair
               then trim_wsp (drop 1 (dropWhile (\<lambda>c. c \<noteq> ch CHR ''='') pair))
               else trim_wsp pair)
      in if n = [] \<and> v = [] then None else Some (n, v))"

text \<open>An attribute: its name in lower case and its value.\<close>

definition cookie_av :: "ustring \<Rightarrow> ustring \<times> ustring" where
  "cookie_av s =
     (map to_lower (trim_wsp (takeWhile (\<lambda>c. c \<noteq> ch CHR ''='') s)),
      trim_wsp (drop 1 (dropWhile (\<lambda>c. c \<noteq> ch CHR ''='') s)))"

definition attributes :: "ustring \<Rightarrow> (ustring \<times> ustring) list" where
  "attributes s = map cookie_av (tl (split (ch CHR '';'') s))"

definition last_value :: "ustring \<Rightarrow> (ustring \<times> ustring) list \<Rightarrow> ustring option" where
  "last_value n avs =
     (case filter (\<lambda>av. fst av = n) avs of [] \<Rightarrow> None | x # xs \<Rightarrow> Some (snd (last (x # xs))))"

definition has_attribute :: "ustring \<Rightarrow> (ustring \<times> ustring) list \<Rightarrow> bool" where
  "has_attribute n avs \<longleftrightarrow> n \<in> fst ` set avs"

text \<open>\<open>Max-Age\<close> in seconds: digits after an optional minus sign.\<close>

definition max_age :: "ustring \<Rightarrow> int option" where
  "max_age v =
     (case v of
        [] \<Rightarrow> None
      | c # r \<Rightarrow>
          if c = ch CHR ''-'' \<and> list_all is_digit r then Some (- int (digits_value r))
          else if list_all is_digit (c # r) then Some (int (digits_value (c # r)))
          else None)"

text \<open>The time at which the cookie expires; \<open>None\<close> for a cookie of the session. The last
  usable \<open>Max-Age\<close> goes before the last usable \<open>Expires\<close>.\<close>

definition expiry_of :: "int \<Rightarrow> (ustring \<times> ustring) list \<Rightarrow> int option" where
  "expiry_of now avs =
     (case filter (\<lambda>av. fst av = str ''max-age'' \<and> max_age (snd av) \<noteq> None) avs of
        x # xs \<Rightarrow>
          (case max_age (snd (last (x # xs))) of
             None \<Rightarrow> None
           | Some delta \<Rightarrow> if delta \<le> 0 then Some (- 8640000000000000) else Some (now + 1000 * delta))
      | [] \<Rightarrow>
          (case filter (\<lambda>av. fst av = str ''expires'' \<and> parse_cookie_date (snd av) \<noteq> None) avs of
             [] \<Rightarrow> None
           | y # ys \<Rightarrow> parse_cookie_date (snd (last (y # ys)))))"

definition domain_of :: "(ustring \<times> ustring) list \<Rightarrow> ustring" where
  "domain_of avs =
     (case filter (\<lambda>av. fst av = str ''domain'' \<and> snd av \<noteq> []) avs of
        [] \<Rightarrow> []
      | x # xs \<Rightarrow>
          let v = snd (last (x # xs))
          in map to_lower (if hd v = ch CHR ''.'' then tl v else v))"

text \<open>Paths (RFC 6265, 5.1.4).\<close>

definition request_path :: "document \<Rightarrow> ustring" where
  "request_path d = (if take 1 (uri_path d) = str ''/'' then uri_path d else str ''/'')"

definition default_path :: "document \<Rightarrow> ustring" where
  "default_path d =
     (let p = request_path d;
          cut = rev (drop 1 (dropWhile (\<lambda>c. c \<noteq> ch CHR ''/'') (rev p)))
      in if cut = [] then str ''/'' else cut)"

definition path_of :: "document \<Rightarrow> (ustring \<times> ustring) list \<Rightarrow> ustring" where
  "path_of d avs =
     (case last_value (str ''path'') avs of
        None \<Rightarrow> default_path d
      | Some v \<Rightarrow> if take 1 v = str ''/'' then v else default_path d)"

definition path_match :: "ustring \<Rightarrow> ustring \<Rightarrow> bool" where
  "path_match req cp \<longleftrightarrow>
     cp = req \<or>
     (take (length cp) req = cp \<and> cp \<noteq> [] \<and>
      (last cp = ch CHR ''/'' \<or> take 1 (drop (length cp) req) = str ''/''))"

definition domain_match :: "ustring \<Rightarrow> ustring \<Rightarrow> bool" where
  "domain_match h dm \<longleftrightarrow>
     h = dm \<or>
     (length dm < length h \<and> drop (length h - length dm - 1) h = ch CHR ''.'' # dm)"

text \<open>The cookie a set-cookie string asks for; \<open>None\<close> when the string is ignored.\<close>

definition parse_set_cookie :: "document \<Rightarrow> ustring \<Rightarrow> cookie option" where
  "parse_set_cookie d s =
     (case name_value (hd (split (ch CHR '';'') s)) of
        None \<Rightarrow> None
      | Some (n, v) \<Rightarrow>
          let avs = attributes s;
              dm = domain_of avs
          in if dm \<noteq> [] \<and> \<not> domain_match (host d) dm then None
             else
               Some \<lparr>c_name = n, c_value = v,
                     c_domain = (if dm = [] then host d else dm),
                     c_host_only = (dm = []),
                     c_path = path_of d avs,
                     c_expiry = expiry_of (clock d) avs,
                     c_secure = has_attribute (str ''secure'') avs,
                     c_http_only = has_attribute (str ''httponly'') avs\<rparr>)"

subsection \<open>Storing and listing (RFC 6265, 5.3 and 5.4)\<close>

definition same_cookie :: "cookie \<Rightarrow> cookie \<Rightarrow> bool" where
  "same_cookie a b \<longleftrightarrow> c_name a = c_name b \<and> c_domain a = c_domain b \<and> c_path a = c_path b"

definition expired :: "int \<Rightarrow> cookie \<Rightarrow> bool" where
  "expired now c = (case c_expiry c of None \<Rightarrow> False | Some t \<Rightarrow> t \<le> now)"

text \<open>A new cookie takes the place of the stored cookie of the same name, domain and path,
  or goes to the end.\<close>

definition put_cookie :: "cookie \<Rightarrow> cookie list \<Rightarrow> cookie list" where
  "put_cookie c cs =
     (if list_ex (\<lambda>old. same_cookie old c) cs
      then map (\<lambda>old. if same_cookie old c then c else old) cs
      else cs @ [c])"

text \<open>The assignment \<open>document.cookie = s\<close>. A script can neither store a cookie with the
  \<open>HttpOnly\<close> attribute nor replace one; cookies that have expired leave the store.\<close>

definition assign_cookie :: "document \<Rightarrow> ustring \<Rightarrow> document" where
  "assign_cookie d s =
     (case parse_set_cookie d s of
        None \<Rightarrow> d
      | Some c \<Rightarrow>
          if c_http_only c \<or> list_ex (\<lambda>old. same_cookie old c \<and> c_http_only old) (jar d)
          then d
          else d\<lparr>jar := filter (\<lambda>x. \<not> expired (clock d) x) (put_cookie c (jar d))\<rparr>)"

definition visible :: "document \<Rightarrow> cookie \<Rightarrow> bool" where
  "visible d c \<longleftrightarrow>
     (if c_host_only c then host d = c_domain c else domain_match (host d) (c_domain c)) \<and>
     path_match (request_path d) (c_path c) \<and>
     (c_secure c \<longrightarrow> secure_channel d) \<and>
     \<not> c_http_only c \<and>
     \<not> expired (clock d) c"

text \<open>The cookies in scope of the document, those of a longer path first and otherwise in
  the order of creation.\<close>

definition listed :: "document \<Rightarrow> cookie list" where
  "listed d = sort_key (\<lambda>c. - int (length (c_path c))) (filter (visible d) (jar d))"

text \<open>The value of \<open>document.cookie\<close>: the cookies in scope as \<open>name=value\<close>, or as the
  value alone where the name is empty, joined by a semicolon and a space.\<close>

definition cookie_string :: "cookie \<Rightarrow> ustring" where
  "cookie_string c = (if c_name c = [] then c_value c else c_name c @ str ''='' @ c_value c)"

definition document_cookie :: "document \<Rightarrow> ustring" where
  "document_cookie d = join (str ''; '') (map cookie_string (listed d))"

section \<open>Web storage\<close>

text \<open>
  A \<open>Storage\<close> object: its items in order, and the user agent's decision which contents
  it has room for. \<open>setItem\<close> raises a QuotaExceededError, here \<open>None\<close>, when the new
  contents are refused.
\<close>

record storage =
  items :: "(ustring \<times> ustring) list"
  has_room :: "(ustring \<times> ustring) list \<Rightarrow> bool"

definition Storage_getItem :: "storage \<Rightarrow> ustring \<Rightarrow> ustring option" where
  "Storage_getItem st k = map_of (items st) k"

definition Storage_setItem :: "storage \<Rightarrow> ustring \<Rightarrow> ustring \<Rightarrow> storage option" where
  "Storage_setItem st k v =
     (let new = AList.update k v (items st)
      in if has_room st new then Some (st\<lparr>items := new\<rparr>) else None)"

definition Storage_removeItem :: "storage \<Rightarrow> ustring \<Rightarrow> storage" where
  "Storage_removeItem st k = st\<lparr>items := AList.delete k (items st)\<rparr>"

definition Storage_clear :: "storage \<Rightarrow> storage" where
  "Storage_clear st = st\<lparr>items := []\<rparr>"

definition Storage_length :: "storage \<Rightarrow> nat" where
  "Storage_length st = length (items st)"

text \<open>\<open>Object.keys\<close> of a \<open>Storage\<close> object lists the keys of its items but for those that
  the properties of its prototype chain hide: the members of \<open>Storage.prototype\<close> and of
  \<open>Object.prototype\<close>.\<close>

definition prototype_members :: "ustring list" where
  "prototype_members =
     [str ''length'', str ''key'', str ''getItem'', str ''setItem'', str ''removeItem'',
      str ''clear'', str ''constructor'', str ''hasOwnProperty'', str ''isPrototypeOf'',
      str ''propertyIsEnumerable'', str ''toLocaleString'', str ''toString'', str ''valueOf'',
      str ''__proto__'', str ''__defineGetter__'', str ''__defineSetter__'',
      str ''__lookupGetter__'', str ''__lookupSetter__'']"

definition Storage_keys :: "storage \<Rightarrow> ustring list" where
  "Storage_keys st = filter (\<lambda>k. k \<notin> set prototype_members) (map fst (items st))"

section \<open>The global environment\<close>

text \<open>
  The global object \<open>window\<close> with the three things the adapters look for. The document is
  present or not. Reading \<open>window.localStorage\<close> or \<open>window.sessionStorage\<close> gives
  \<open>undefined\<close> or the store, or it raises a SecurityError, as it does where the user agent
  denies the page its stores. Outside a browser there is no \<open>window\<close>, and the environment
  is \<open>None\<close>.
\<close>

datatype 'a access = Undefined | Raises | Gives 'a

record window =
  document :: "document option"
  localStorage :: "storage access"
  sessionStorage :: "storage access"

type_synonym env = "window option"

section \<open>CookieService\<close>

text \<open>
  The options of a cookie. \<open>expires\<close> is a number of days or a \<open>Date\<close>. A flag that is
  absent counts as \<open>False\<close>: the code only tests it for truth.
\<close>

datatype expiry = Days number | At date

datatype same_site = Strict | Lax | No_restriction

record CookieOptions =
  expires :: "expiry option"
  path :: "ustring option"
  domain :: "ustring option"
  secure :: bool
  sameSite :: "same_site option"
  httpOnly :: bool

text \<open>The default \<open>options = {}\<close>.\<close>

definition no_options :: CookieOptions where
  "no_options =
     \<lparr>expires = None, path = None, domain = None, secure = False, sameSite = None,
      httpOnly = False\<rparr>"

definition isBrowser :: "env \<Rightarrow> bool" where
  "isBrowser e = (case e of None \<Rightarrow> False | Some w \<Rightarrow> document w \<noteq> None)"

text \<open>\<open>typeof value === "string" ? value : JSON.stringify(value)\<close>; \<open>None\<close> is \<open>undefined\<close>.\<close>

definition stringValue :: "jsval \<Rightarrow> ustring option" where
  "stringValue v = (case v of JStr s \<Rightarrow> Some s | _ \<Rightarrow> JSON_stringify v)"

text \<open>The conversion to a string that \<open>encodeURIComponent\<close> and \<open>Storage.setItem\<close> apply to
  their argument.\<close>

definition to_string :: "ustring option \<Rightarrow> ustring" where
  "to_string x = (case x of None \<Rightarrow> str ''undefined'' | Some s \<Rightarrow> s)"

text \<open>The test \<open>if (options.expires)\<close>: a \<open>Date\<close> counts as true, a number unless it is 0
  or \<open>NaN\<close>.\<close>

definition expires_given :: "expiry option \<Rightarrow> bool" where
  "expires_given x =
     (case x of None \<Rightarrow> False | Some (Days n) \<Rightarrow> to_boolean n | Some (At dt) \<Rightarrow> True)"

text \<open>The sum \<open>expiresDate.getTime() + options.expires * 24 * 60 * 60 * 1000\<close>: the
  products from left to right and then the sum, each rounded as the operators do.\<close>

definition days_from :: "int \<Rightarrow> number \<Rightarrow> number" where
  "days_from now n =
     plus64 (Finite (of_int now))
       (times64 (times64 (times64 (times64 n (Finite 24)) (Finite 60)) (Finite 60)) (Finite 1000))"

text \<open>\<open>expiresDate\<close>: for a number of days, \<open>new Date()\<close> moved by that many days with
  \<open>setTime\<close>; \<open>now\<close> is the time \<open>new Date()\<close> reads.\<close>

definition expiresDate :: "int \<Rightarrow> expiry \<Rightarrow> date" where
  "expiresDate now x =
     (case x of
        Days n \<Rightarrow> time_clip (days_from now n)
      | At dt \<Rightarrow> dt)"

definition sameSite_lower :: "same_site \<Rightarrow> ustring" where
  "sameSite_lower x = (case x of Strict \<Rightarrow> str ''strict'' | Lax \<Rightarrow> str ''lax'' | No_restriction \<Rightarrow> str ''none'')"

text \<open>\<open>cookieString\<close> as \<open>setCookie\<close> has built it when it assigns it to
  \<open>document.cookie\<close>; \<open>None\<close> when \<open>encodeURIComponent\<close> has raised, which the \<open>catch\<close>
  turns into a message on the console.\<close>

definition setCookie_cookieString ::
  "int \<Rightarrow> ustring \<Rightarrow> jsval \<Rightarrow> CookieOptions \<Rightarrow> ustring option" where
  "setCookie_cookieString now name value options =
     (case encodeURIComponent name of
        None \<Rightarrow> None
      | Some n \<Rightarrow>
          (case encodeURIComponent (to_string (stringValue value)) of
             None \<Rightarrow> None
           | Some v \<Rightarrow>
               Some (n @ str ''='' @ v @
                 (case expires options of
                    None \<Rightarrow> []
                  | Some x \<Rightarrow>
                      if expires_given (Some x)
                      then str ''; expires='' @ toUTCString (expiresDate now x) else []) @
                 (case path options of
                    None \<Rightarrow> str ''; path=/''
                  | Some p \<Rightarrow> if p \<noteq> [] then str ''; path='' @ p else str ''; path=/'') @
                 (case domain options of
                    None \<Rightarrow> []
                  | Some dm \<Rightarrow> if dm \<noteq> [] then str ''; domain='' @ dm else []) @
                 (if secure options then str ''; secure'' else []) @
                 (case sameSite options of
                    None \<Rightarrow> []
                  | Some x \<Rightarrow> str ''; samesite='' @ sameSite_lower x))))"

definition setCookie :: "env \<Rightarrow> ustring \<Rightarrow> jsval \<Rightarrow> CookieOptions \<Rightarrow> env" where
  "setCookie e name value options =
     (case e of
        None \<Rightarrow> e
      | Some w \<Rightarrow>
          (case document w of
             None \<Rightarrow> e
           | Some d \<Rightarrow>
               (case setCookie_cookieString (clock d) name value options of
                  None \<Rightarrow> e
                | Some cookieString \<Rightarrow> Some (w\<lparr>document := Some (assign_cookie d cookieString)\<rparr>))))"

text \<open>The loop of \<open>getCookie\<close> over the pieces of \<open>document.cookie\<close>. A URIError of
  \<open>decodeURIComponent\<close> reaches the outer \<open>catch\<close>, which returns \<open>null\<close>; a SyntaxError of
  \<open>JSON.parse\<close> reaches the inner one, which returns the decoded string.\<close>

fun getCookie_loop :: "ustring \<Rightarrow> ustring list \<Rightarrow> jsval" where
  "getCookie_loop nameEQ [] = JNull"
| "getCookie_loop nameEQ (cookie # rest) =
     (let cookie' = trim cookie
      in if take (length nameEQ) cookie' = nameEQ then
           (case decodeURIComponent (drop (length nameEQ) cookie') of
              None \<Rightarrow> JNull
            | Some value \<Rightarrow> (case JSON_parse value of None \<Rightarrow> JStr value | Some v \<Rightarrow> v))
         else getCookie_loop nameEQ rest)"

definition getCookie :: "env \<Rightarrow> ustring \<Rightarrow> jsval" where
  "getCookie e name =
     (case e of
        None \<Rightarrow> JNull
      | Some w \<Rightarrow>
          (case document w of
             None \<Rightarrow> JNull
           | Some d \<Rightarrow>
               (case encodeURIComponent name of
                  None \<Rightarrow> JNull
                | Some n \<Rightarrow>
                    getCookie_loop (n @ str ''='') (split (ch CHR '';'') (document_cookie d)))))"

text \<open>\<open>removeCookie\<close> passes on the path and the domain of its options and an expiry at
  time 0.\<close>

definition removeCookie :: "env \<Rightarrow> ustring \<Rightarrow> CookieOptions \<Rightarrow> env" where
  "removeCookie e name options =
     setCookie e name (JStr [])
       \<lparr>expires = Some (At (Date 0)), path = path options, domain = domain options,
        secure = False, sameSite = None, httpOnly = False\<rparr>"

definition hasCookie :: "env \<Rightarrow> ustring \<Rightarrow> bool" where
  "hasCookie e name \<longleftrightarrow> getCookie e name \<noteq> JNull"

text \<open>The assignment \<open>cookies[k] = v\<close> on an object literal: the key \<open>__proto__\<close> reaches
  the setter of \<open>Object.prototype\<close>, which ignores a string, and no property appears.\<close>

definition set_property :: "(ustring \<rightharpoonup> ustring) \<Rightarrow> ustring \<Rightarrow> ustring \<Rightarrow> (ustring \<rightharpoonup> ustring)" where
  "set_property m k v = (if k = str ''__proto__'' then m else m(k \<mapsto> v))"

text \<open>The loop that \<open>getAllCookies\<close> and \<open>parseCookiesFromHeader\<close> share word for word.
  \<open>[name, value] = cookie.split("=")\<close> takes the first two pieces, and a piece that is
  missing or empty fails the test \<open>name && value\<close>. \<open>None\<close> is the URIError that the
  \<open>catch\<close> of the caller answers with an empty object.\<close>

fun parse_loop :: "(ustring \<rightharpoonup> ustring) \<Rightarrow> ustring list \<Rightarrow> (ustring \<rightharpoonup> ustring) option" where
  "parse_loop cookies [] = Some cookies"
| "parse_loop cookies (cookie # rest) =
     (case split (ch CHR ''='') (trim cookie) of
        name # value # _ \<Rightarrow>
          if name \<noteq> [] \<and> value \<noteq> [] then
            (case decodeURIComponent name of
               None \<Rightarrow> None
             | Some k \<Rightarrow>
                 (case decodeURIComponent value of
                    None \<Rightarrow> None
                  | Some v \<Rightarrow> parse_loop (set_property cookies k v) rest))
          else parse_loop cookies rest
      | _ \<Rightarrow> parse_loop cookies rest)"

definition getAllCookies :: "env \<Rightarrow> (ustring \<rightharpoonup> ustring)" where
  "getAllCookies e =
     (case e of
        None \<Rightarrow> Map.empty
      | Some w \<Rightarrow>
          (case document w of
             None \<Rightarrow> Map.empty
           | Some d \<Rightarrow>
               (case parse_loop Map.empty (split (ch CHR '';'') (document_cookie d)) of
                  None \<Rightarrow> Map.empty
                | Some cookies \<Rightarrow> cookies)))"

text \<open>The header is a string or \<open>null\<close>; \<open>!cookieHeader\<close> holds for \<open>null\<close> and for the empty
  string.\<close>

definition parseCookiesFromHeader :: "ustring option \<Rightarrow> (ustring \<rightharpoonup> ustring)" where
  "parseCookiesFromHeader cookieHeader =
     (case cookieHeader of
        None \<Rightarrow> Map.empty
      | Some h \<Rightarrow>
          if h = [] then Map.empty
          else
            (case parse_loop Map.empty (split (ch CHR '';'') h) of
               None \<Rightarrow> Map.empty
             | Some cookies \<Rightarrow> cookies))"

definition sameSite_capital :: "same_site \<Rightarrow> ustring" where
  "sameSite_capital x = (case x of Strict \<Rightarrow> str ''Strict'' | Lax \<Rightarrow> str ''Lax'' | No_restriction \<Rightarrow> str ''None'')"

text \<open>\<open>createSetCookieHeader\<close> needs no browser; \<open>now\<close> is the time \<open>new Date()\<close> reads.
  Its \<open>catch\<close> returns the empty string.\<close>

definition createSetCookieHeader :: "int \<Rightarrow> ustring \<Rightarrow> jsval \<Rightarrow> CookieOptions \<Rightarrow> ustring" where
  "createSetCookieHeader now name value options =
     (case encodeURIComponent name of
        None \<Rightarrow> []
      | Some n \<Rightarrow>
          (case encodeURIComponent (to_string (stringValue value)) of
             None \<Rightarrow> []
           | Some v \<Rightarrow>
               n @ str ''='' @ v @
               (case expires options of
                  None \<Rightarrow> []
                | Some x \<Rightarrow>
                    if expires_given (Some x)
                    then str ''; Expires='' @ toUTCString (expiresDate now x) else []) @
               (case path options of
                  None \<Rightarrow> str ''; Path=/''
                | Some p \<Rightarrow> if p \<noteq> [] then str ''; Path='' @ p else str ''; Path=/'') @
               (case domain options of
                  None \<Rightarrow> []
                | Some dm \<Rightarrow> if dm \<noteq> [] then str ''; Domain='' @ dm else []) @
               (if secure options then str ''; Secure'' else []) @
               (case sameSite options of
                  None \<Rightarrow> []
                | Some x \<Rightarrow> str ''; SameSite='' @ sameSite_capital x) @
               (if httpOnly options then str ''; HttpOnly'' else [])))"

section \<open>LocalStorageService and SessionStorageService\<close>

text \<open>The two classes are the same text but for the store they name, \<open>window.localStorage\<close>
  or \<open>window.sessionStorage\<close>; the first argument of each method below says which.\<close>

datatype service = LocalStorageService | SessionStorageService

definition the_storage :: "service \<Rightarrow> window \<Rightarrow> storage access" where
  "the_storage sv w =
     (case sv of LocalStorageService \<Rightarrow> localStorage w | SessionStorageService \<Rightarrow> sessionStorage w)"

definition with_storage :: "service \<Rightarrow> window \<Rightarrow> storage \<Rightarrow> window" where
  "with_storage sv w st =
     (case sv of
        LocalStorageService \<Rightarrow> w\<lparr>localStorage := Gives st\<rparr>
      | SessionStorageService \<Rightarrow> w\<lparr>sessionStorage := Gives st\<rparr>)"

text \<open>
  The result of a method is \<open>Inr\<close> of what it returns, with the environment it leaves for the
  methods that write, or \<open>Inl\<close> of the fault that leaves it. \<open>isBrowser\<close> reads the store from
  \<open>window\<close> outside every \<open>try\<close>, in each method as its first step, so a SecurityError of
  that read leaves the method; what is raised later, inside \<open>try\<close>, is caught.
\<close>

datatype fault = SecurityError

definition storage_isBrowser :: "service \<Rightarrow> env \<Rightarrow> fault + bool" where
  "storage_isBrowser sv e =
     (case e of
        None \<Rightarrow> Inr False
      | Some w \<Rightarrow>
          (case the_storage sv w of
             Undefined \<Rightarrow> Inr False
           | Raises \<Rightarrow> Inl SecurityError
           | Gives st \<Rightarrow> Inr True))"

definition setItem :: "service \<Rightarrow> env \<Rightarrow> ustring \<Rightarrow> jsval \<Rightarrow> fault + env" where
  "setItem sv e key value =
     (case e of
        None \<Rightarrow> Inr e
      | Some w \<Rightarrow>
          (case the_storage sv w of
             Undefined \<Rightarrow> Inr e
           | Raises \<Rightarrow> Inl SecurityError
           | Gives st \<Rightarrow>
               (case Storage_setItem st key (to_string (JSON_stringify value)) of
                  None \<Rightarrow> Inr e
                | Some st' \<Rightarrow> Inr (Some (with_storage sv w st')))))"

definition getItem :: "service \<Rightarrow> env \<Rightarrow> ustring \<Rightarrow> fault + jsval" where
  "getItem sv e key =
     (case e of
        None \<Rightarrow> Inr JNull
      | Some w \<Rightarrow>
          (case the_storage sv w of
             Undefined \<Rightarrow> Inr JNull
           | Raises \<Rightarrow> Inl SecurityError
           | Gives st \<Rightarrow>
               (case Storage_getItem st key of
                  None \<Rightarrow> Inr JNull
                | Some item \<Rightarrow> (case JSON_parse item of None \<Rightarrow> Inr JNull | Some v \<Rightarrow> Inr v))))"

definition removeItem :: "service \<Rightarrow> env \<Rightarrow> ustring \<Rightarrow> fault + env" where
  "removeItem sv e key =
     (case e of
        None \<Rightarrow> Inr e
      | Some w \<Rightarrow>
          (case the_storage sv w of
             Undefined \<Rightarrow> Inr e
           | Raises \<Rightarrow> Inl SecurityError
           | Gives st \<Rightarrow> Inr (Some (with_storage sv w (Storage_removeItem st key)))))"

definition clear :: "service \<Rightarrow> env \<Rightarrow> fault + env" where
  "clear sv e =
     (case e of
        None \<Rightarrow> Inr e
      | Some w \<Rightarrow>
          (case the_storage sv w of
             Undefined \<Rightarrow> Inr e
           | Raises \<Rightarrow> Inl SecurityError
           | Gives st \<Rightarrow> Inr (Some (with_storage sv w (Storage_clear st)))))"

definition getAllKeys :: "service \<Rightarrow> env \<Rightarrow> fault + ustring list" where
  "getAllKeys sv e =
     (case e of
        None \<Rightarrow> Inr []
      | Some w \<Rightarrow>
          (case the_storage sv w of
             Undefined \<Rightarrow> Inr []
           | Raises \<Rightarrow> Inl SecurityError
           | Gives st \<Rightarrow> Inr (Storage_keys st)))"

definition hasItem :: "service \<Rightarrow> env \<Rightarrow> ustring \<Rightarrow> fault + bool" where
  "hasItem sv e key =
     (case e of
        None \<Rightarrow> Inr False
      | Some w \<Rightarrow>
          (case the_storage sv w of
             Undefined \<Rightarrow> Inr False
           | Raises \<Rightarrow> Inl SecurityError
           | Gives st \<Rightarrow> Inr (Storage_getItem st key \<noteq> None)))"

definition getLength :: "service \<Rightarrow> env \<Rightarrow> fault + nat" where
  "getLength sv e =
     (case e of
        None \<Rightarrow> Inr 0
      | Some w \<Rightarrow>
          (case the_storage sv w of
             Undefined \<Rightarrow> Inr 0
           | Raises \<Rightarrow> Inl SecurityError
           | Gives st \<Rightarrow> Inr (Storage_length st)))"

text \<open>One call after another: a fault that leaves the first call ends the sequence.\<close>

definition and_then :: "fault + 'a \<Rightarrow> ('a \<Rightarrow> fault + 'b) \<Rightarrow> fault + 'b" where
  "and_then r f = (case r of Inl x \<Rightarrow> Inl x | Inr a \<Rightarrow> f a)"

text \<open>The text a store holds under a key, as \<open>window.localStorage.getItem(key)\<close> reads
  it before any decoding.\<close>

definition raw_item :: "service \<Rightarrow> env \<Rightarrow> ustring \<Rightarrow> ustring option" where
  "raw_item sv e key =
     (case e of
        None \<Rightarrow> None
      | Some w \<Rightarrow> (case the_storage sv w of Gives st \<Rightarrow> Storage_getItem st key | _ \<Rightarrow> None))"

text \<open>The units \<open>encodeURIComponent\<close> writes: the ones it keeps and the percent sign.\<close>

definition uri_safe :: "nat \<Rightarrow> bool" where
  "uri_safe c \<longleftrightarrow> uri_unreserved c \<or> c = 37"


text \<open>A window without a document whose two stores are empty and take every write.\<close>

definition empty_window :: window where
  "empty_window =
     \<lparr>document = None,
      localStorage = Gives \<lparr>items = [], has_room = (\<lambda>xs. True)\<rparr>,
      sessionStorage = Gives \<lparr>items = [], has_room = (\<lambda>xs. True)\<rparr>\<rparr>"

subsection \<open>The test of the loop over a header\<close>




subsection \<open>Occurrences of a key in a header\<close>









subsection \<open>The directives of a cookie string\<close>

text \<open>Directives in a row, each after a semicolon and a space.\<close>

definition directives :: "ustring list \<Rightarrow> ustring" where
  "directives xs = concat (map (\<lambda>x. str ''; '' @ x) xs)"

text \<open>The directives that \<open>setCookie\<close> appends to \<open>name=value\<close>, and those of
  \<open>createSetCookieHeader\<close>, in the order of the code.\<close>

definition setCookie_directives :: "int \<Rightarrow> CookieOptions \<Rightarrow> ustring list" where
  "setCookie_directives now options =
     (case expires options of
        None \<Rightarrow> []
      | Some x \<Rightarrow>
          if expires_given (Some x) then [str ''expires='' @ toUTCString (expiresDate now x)]
          else []) @
     [case path options of
        None \<Rightarrow> str ''path=/''
      | Some p \<Rightarrow> if p \<noteq> [] then str ''path='' @ p else str ''path=/''] @
     (case domain options of
        None \<Rightarrow> []
      | Some dm \<Rightarrow> if dm \<noteq> [] then [str ''domain='' @ dm] else []) @
     (if secure options then [str ''secure''] else []) @
     (case sameSite options of None \<Rightarrow> [] | Some x \<Rightarrow> [str ''samesite='' @ sameSite_lower x])"

definition header_directives :: "int \<Rightarrow> CookieOptions \<Rightarrow> ustring list" where
  "header_directives now options =
     (case expires options of
        None \<Rightarrow> []
      | Some x \<Rightarrow>
          if expires_given (Some x) then [str ''Expires='' @ toUTCString (expiresDate now x)]
          else []) @
     [case path options of
        None \<Rightarrow> str ''Path=/''
      | Some p \<Rightarrow> if p \<noteq> [] then str ''Path='' @ p else str ''Path=/''] @
     (case domain options of
        None \<Rightarrow> []
      | Some dm \<Rightarrow> if dm \<noteq> [] then [str ''Domain='' @ dm] else []) @
     (if secure options then [str ''Secure''] else []) @
     (case sameSite options of None \<Rightarrow> [] | Some x \<Rightarrow> [str ''SameSite='' @ sameSite_capital x]) @
     (if httpOnly options then [str ''HttpOnly''] else [])"

definition no_semicolon :: "ustring option \<Rightarrow> bool" where
  "no_semicolon x = (case x of None \<Rightarrow> True | Some s \<Rightarrow> ch CHR '';'' \<notin> set s)"

definition injected_options :: CookieOptions where
  "injected_options =
     \<lparr>expires = None, path = Some (str ''/; HttpOnly''), domain = None, secure = False,
      sameSite = None, httpOnly = False\<rparr>"

definition strict_options :: CookieOptions where
  "strict_options =
     \<lparr>expires = None, path = Some (str ''/app''), domain = None, secure = True,
      sameSite = Some Lax, httpOnly = True\<rparr>"

definition zero_days_options :: CookieOptions where
  "zero_days_options =
     \<lparr>expires = Some (Days (Finite 0)), path = None, domain = None, secure = False, sameSite = None,
      httpOnly = False\<rparr>"

definition week_options :: CookieOptions where
  "week_options =
     \<lparr>expires = Some (Days (Finite 7)), path = None, domain = None, secure = False, sameSite = None,
      httpOnly = False\<rparr>"

text \<open>A third of a day, as the number nearest to it.\<close>

definition third_options :: CookieOptions where
  "third_options =
     \<lparr>expires = Some (Days (Finite (6004799503160661 / 18014398509481984))), path = None,
      domain = None, secure = False, sameSite = None, httpOnly = False\<rparr>"

subsection \<open>Cookies of a document and values that read back\<close>

text \<open>What \<open>getCookie\<close> makes of the raw value of a cookie: the decoded text read as
  JSON, the decoded text itself where it is no JSON, \<open>null\<close> where it cannot be decoded.\<close>

definition cookie_value :: "ustring \<Rightarrow> jsval" where
  "cookie_value r =
     (case decodeURIComponent r of
        None \<Rightarrow> JNull
      | Some t \<Rightarrow> (case JSON_parse t of None \<Rightarrow> JStr t | Some v \<Rightarrow> v))"

text \<open>A cookie whose name and value the pieces of \<open>document.cookie\<close> give back as they
  are: the name is not empty and has neither \<open>=\<close> nor \<open>;\<close>, the value has no \<open>;\<close>, and there
  is no white space at the head of the name or at the end of the value.\<close>

definition well_formed :: "cookie \<Rightarrow> bool" where
  "well_formed c \<longleftrightarrow>
     c_name c \<noteq> [] \<and> ch CHR '';'' \<notin> set (c_name c) \<and> ch CHR ''='' \<notin> set (c_name c) \<and>
     ch CHR '';'' \<notin> set (c_value c) \<and> \<not> js_space (hd (c_name c)) \<and>
     (c_value c = [] \<or> \<not> js_space (last (c_value c)))"

definition cookies_well_formed :: "document \<Rightarrow> bool" where
  "cookies_well_formed d = list_all well_formed (listed d)"

text \<open>The cookie that a write of the adapter with the default options asks the browser
  for: for the host of the document only, for the path \<open>/\<close>, with the given expiry.\<close>

definition default_cookie :: "document \<Rightarrow> ustring \<Rightarrow> ustring \<Rightarrow> int option \<Rightarrow> cookie" where
  "default_cookie d n v ex =
     \<lparr>c_name = n, c_value = v, c_domain = host d, c_host_only = True, c_path = str ''/'',
      c_expiry = ex, c_secure = False, c_http_only = False\<rparr>"





text \<open>The decoded text of the cookie that a document shows first under a name.\<close>

definition cookie_text :: "document \<Rightarrow> ustring \<Rightarrow> ustring option" where
  "cookie_text d name =
     (case encodeURIComponent name of
        None \<Rightarrow> None
      | Some n \<Rightarrow>
          (case find (\<lambda>c. c_name c = n) (listed d) of
             None \<Rightarrow> None
           | Some c \<Rightarrow> decodeURIComponent (c_value c)))"

text \<open>A document at the root of a site that has no cookies yet, and its window with two
  empty stores that take every write.\<close>

definition plain_document :: document where
  "plain_document =
     \<lparr>jar = [], clock = 1000, host = str ''example.com'', uri_path = str ''/'',
      secure_channel = False\<rparr>"


text \<open>A cookie as the adapter leaves it: for the host of \<open>plain_document\<close> and the path \<open>/\<close>.\<close>

definition plain_cookie :: "ustring \<Rightarrow> ustring \<Rightarrow> cookie" where
  "plain_cookie n v = default_cookie plain_document n v None"

text \<open>A window whose document shows the one cookie \<open>k\<close> with the raw value \<open>r\<close> and
  whose local store holds the text \<open>t\<close> under \<open>k\<close>.\<close>

definition window_with :: "ustring \<Rightarrow> ustring \<Rightarrow> window" where
  "window_with r t =
     \<lparr>document = Some (plain_document\<lparr>jar := [plain_cookie (str ''k'') r]\<rparr>),
      localStorage = Gives \<lparr>items = [(str ''k'', t)], has_room = (\<lambda>xs. True)\<rparr>,
      sessionStorage = Undefined\<rparr>"




text \<open>The text that \<open>getCookie\<close> reads for a name from the value of \<open>document.cookie\<close>: of
  the pieces between semicolons, without the white space around them, the first that
  starts with the encoded name and \<open>=\<close>, without that head.\<close>

definition matched_text :: "document \<Rightarrow> ustring \<Rightarrow> ustring option" where
  "matched_text d name =
     (case encodeURIComponent name of
        None \<Rightarrow> None
      | Some n \<Rightarrow>
          map_option (drop (length n + 1))
            (find (\<lambda>p. take (length n + 1) p = n @ str ''='')
               (map trim (split (ch CHR '';'') (document_cookie d)))))"





section \<open>Facts about the platform\<close>

subsection \<open>Percent encoding and decoding\<close>

lemma lex_numeral: "lex (numeral k) (c # cs) = lex (pred_numeral k) cs"
  by (simp add: numeral_eq_Suc)

lemma decode_from_numeral: "decode_from (numeral k) (c # cs) = decode_from (pred_numeral k) cs"
  by (simp add: numeral_eq_Suc)

lemma upper_hexdigit_safe: "n < 16 \<Longrightarrow> uri_safe (upper_hexdigit n)"
  by (auto simp: uri_safe_def uri_unreserved_def upper_hexdigit_def)

lemma percent_octet_safe: "c \<in> set (percent_octet b) \<Longrightarrow> b < 256 \<Longrightarrow> uri_safe c"
proof -
  assume c: "c \<in> set (percent_octet b)" and b: "b < 256"
  have "b div 16 < 16" using b by simp
  moreover have "b mod 16 < 16" by simp
  ultimately show ?thesis
    using c upper_hexdigit_safe [of "b div 16"] upper_hexdigit_safe [of "b mod 16"]
    by (auto simp: percent_octet_def uri_safe_def)
qed

lemma utf8_octets_bound: "v < 2097152 \<Longrightarrow> b \<in> set (utf8_octets v) \<Longrightarrow> b < 256"
  by (auto simp: utf8_octets_def split: if_splits)

lemma escape_code_point_safe:
  "v < 2097152 \<Longrightarrow> c \<in> set (escape_code_point v) \<Longrightarrow> uri_safe c"
  by (auto simp: escape_code_point_def dest: utf8_octets_bound percent_octet_safe)

lemma encodeURIComponent_safe:
  "encodeURIComponent s = Some t \<Longrightarrow> c \<in> set t \<Longrightarrow> uri_safe c"
proof (induction s arbitrary: t rule: encodeURIComponent.induct)
  case 1
  then show ?case by simp
next
  case (2 c0 cs)
  show ?case
  proof (cases "uri_unreserved c0")
    case True
    with 2 show ?thesis by (auto simp: uri_safe_def)
  next
    case False
    note nu = this
    show ?thesis
    proof (cases "is_high_surrogate c0")
      case True
      with 2 nu show ?thesis
        by (auto simp: is_high_surrogate_def is_low_surrogate_def split: if_splits list.splits
            dest!: escape_code_point_safe [rotated])
    next
      case False
      with 2 nu show ?thesis
        by (auto simp: split: if_splits dest!: escape_code_point_safe [rotated])
    qed
  qed
qed



lemma decode_from_skip: "decode_from (length p) (p @ r) = decode_from 0 r"
  by (induction p) simp_all

lemma decode_from_Suc0: "decode_from (Suc 0) (c # cs) = decode_from 0 cs"
  by simp










subsection \<open>Storage and JSON\<close>

lemma the_storage_with_storage: "the_storage sv (with_storage sv w st) = Gives st"
  by (cases sv) (simp_all add: the_storage_def with_storage_def)

lemma JSON_parse_null: "JSON_parse (str ''null'') = Some JNull"
  by (simp add: JSON_parse_def str_def is_digit_def lex_numeral)

lemma Storage_getItem_setItem:
  "Storage_setItem st k v = Some st' \<Longrightarrow> Storage_getItem st' k = Some v"
  by (auto simp: Storage_setItem_def Storage_getItem_def Let_def AList.update_conv'
      split: if_splits)

subsection \<open>The loop over the pieces of a header\<close>




subsection \<open>Composing and reading directives\<close>

lemma directives_Nil: "directives [] = []"
  by (simp add: directives_def)

lemma directives_Cons: "directives (x # xs) = str ''; '' @ x @ directives xs"
  by (simp add: directives_def)

lemma directives_append: "directives (xs @ ys) = directives xs @ directives ys"
  by (simp add: directives_def)

lemma directive_parts:
  "(case x of None \<Rightarrow> [] | Some y \<Rightarrow> if P y then str ''; expires='' @ f y else []) =
   directives (case x of None \<Rightarrow> [] | Some y \<Rightarrow> if P y then [str ''expires='' @ f y] else [])"
  "(case x of None \<Rightarrow> [] | Some y \<Rightarrow> if P y then str ''; Expires='' @ f y else []) =
   directives (case x of None \<Rightarrow> [] | Some y \<Rightarrow> if P y then [str ''Expires='' @ f y] else [])"
  "(case p of None \<Rightarrow> str ''; path=/'' | Some q \<Rightarrow> if q \<noteq> [] then str ''; path='' @ q else str ''; path=/'') =
   directives [case p of None \<Rightarrow> str ''path=/'' | Some q \<Rightarrow> if q \<noteq> [] then str ''path='' @ q else str ''path=/'']"
  "(case p of None \<Rightarrow> str ''; Path=/'' | Some q \<Rightarrow> if q \<noteq> [] then str ''; Path='' @ q else str ''; Path=/'') =
   directives [case p of None \<Rightarrow> str ''Path=/'' | Some q \<Rightarrow> if q \<noteq> [] then str ''Path='' @ q else str ''Path=/'']"
  "(case p of None \<Rightarrow> [] | Some q \<Rightarrow> if q \<noteq> [] then str ''; domain='' @ q else []) =
   directives (case p of None \<Rightarrow> [] | Some q \<Rightarrow> if q \<noteq> [] then [str ''domain='' @ q] else [])"
  "(case p of None \<Rightarrow> [] | Some q \<Rightarrow> if q \<noteq> [] then str ''; Domain='' @ q else []) =
   directives (case p of None \<Rightarrow> [] | Some q \<Rightarrow> if q \<noteq> [] then [str ''Domain='' @ q] else [])"
  "(if b then str ''; secure'' else []) = directives (if b then [str ''secure''] else [])"
  "(if b then str ''; Secure'' else []) = directives (if b then [str ''Secure''] else [])"
  "(case ss of None \<Rightarrow> [] | Some z \<Rightarrow> str ''; samesite='' @ g z) =
   directives (case ss of None \<Rightarrow> [] | Some z \<Rightarrow> [str ''samesite='' @ g z])"
  "(case ss of None \<Rightarrow> [] | Some z \<Rightarrow> str ''; SameSite='' @ g z) =
   directives (case ss of None \<Rightarrow> [] | Some z \<Rightarrow> [str ''SameSite='' @ g z])"
  "(if b then str ''; HttpOnly'' else []) = directives (if b then [str ''HttpOnly''] else [])"
  by (simp_all add: directives_def str_def split: option.splits)

lemma setCookie_cookieString_directives:
  "setCookie_cookieString now name value options =
     (case encodeURIComponent name of
        None \<Rightarrow> None
      | Some n \<Rightarrow>
          (case encodeURIComponent (to_string (stringValue value)) of
             None \<Rightarrow> None
           | Some v \<Rightarrow> Some (n @ str ''='' @ v @ directives (setCookie_directives now options))))"
  unfolding setCookie_cookieString_def setCookie_directives_def directives_append directive_parts
  by (rule refl)

lemma createSetCookieHeader_directives:
  "createSetCookieHeader now name value options =
     (case encodeURIComponent name of
        None \<Rightarrow> []
      | Some n \<Rightarrow>
          (case encodeURIComponent (to_string (stringValue value)) of
             None \<Rightarrow> []
           | Some v \<Rightarrow> n @ str ''='' @ v @ directives (header_directives now options)))"
  unfolding createSetCookieHeader_def header_directives_def directives_append directive_parts
  by (rule refl)

lemma split_no_sep: "sep \<notin> set a \<Longrightarrow> split sep a = [a]"
  by (induction a) auto

lemma split_append_sep: "sep \<notin> set a \<Longrightarrow> split sep (a @ sep # b) = a # split sep b"
  by (induction a) auto

lemma split_directives:
  "59 \<notin> set a \<Longrightarrow> \<forall>x\<in>set xs. 59 \<notin> set x \<Longrightarrow>
   split 59 (a @ directives xs) = a # map ((#) 32) xs"
proof (induction xs arbitrary: a)
  case Nil
  then show ?case by (simp add: directives_Nil split_no_sep)
next
  case (Cons x xs)
  have "split 59 (a @ directives (x # xs)) = a # split 59 ((32 # x) @ directives xs)"
    using Cons.prems(1) split_append_sep [of 59 a "(32 # x) @ directives xs"]
    by (simp add: directives_Cons str_def)
  also have "split 59 ((32 # x) @ directives xs) = (32 # x) # map ((#) 32) xs"
    using Cons.prems(2) by (intro Cons.IH) auto
  finally show ?case by simp
qed

lemma attributes_directives:
  "59 \<notin> set a \<Longrightarrow> \<forall>x\<in>set xs. 59 \<notin> set x \<Longrightarrow>
   attributes (a @ directives xs) = map (\<lambda>x. cookie_av (32 # x)) xs"
  using split_directives [of a xs] by (simp add: attributes_def comp_def)

lemma dec_digits_digit: "c \<in> set (dec_digits n) \<Longrightarrow> 48 \<le> c \<and> c \<le> 57"
proof (induction n rule: dec_digits.induct)
  case (1 n)
  then show ?case
    by (subst (asm) (2) dec_digits.simps) (auto split: if_splits)
qed

lemma pad_digits_digit: "c \<in> set (pad_digits w n) \<Longrightarrow> 48 \<le> c \<and> c \<le> 57"
  by (auto simp: pad_digits_def dest: dec_digits_digit)

lemma weekday_name_no_semicolon: "59 \<notin> set (weekday_name k)"
  by (simp add: weekday_name_def str_def)

lemma month_name_no_semicolon: "59 \<notin> set (month_name k)"
  by (simp add: month_name_def str_def)

lemma toUTCString_no_semicolon: "59 \<notin> set (toUTCString dt)"
proof (cases dt)
  case Invalid_Date
  then show ?thesis by (simp add: toUTCString_def str_def)
next
  case (Date t)
  have p: "\<And>w n. 59 \<notin> set (pad_digits w n)"
    using pad_digits_digit by fastforce
  show ?thesis
    by (simp add: Date toUTCString_def Let_def p weekday_name_no_semicolon
        month_name_no_semicolon split: prod.splits)
      (simp add: str_def)
qed

lemma directive_names:
  "fst (cookie_av (32 # str ''expires='' @ x)) = str ''expires''"
  "fst (cookie_av (32 # str ''Expires='' @ x)) = str ''expires''"
  "fst (cookie_av (32 # str ''path='' @ x)) = str ''path''"
  "fst (cookie_av (32 # str ''Path='' @ x)) = str ''path''"
  "fst (cookie_av (32 # str ''path=/'')) = str ''path''"
  "fst (cookie_av (32 # str ''Path=/'')) = str ''path''"
  "fst (cookie_av (32 # str ''domain='' @ x)) = str ''domain''"
  "fst (cookie_av (32 # str ''Domain='' @ x)) = str ''domain''"
  "fst (cookie_av (32 # str ''secure'')) = str ''secure''"
  "fst (cookie_av (32 # str ''Secure'')) = str ''secure''"
  "fst (cookie_av (32 # str ''samesite='' @ x)) = str ''samesite''"
  "fst (cookie_av (32 # str ''SameSite='' @ x)) = str ''samesite''"
  "fst (cookie_av (32 # str ''HttpOnly'')) = str ''httponly''"
  by (simp_all add: cookie_av_def str_def trim_wsp_def wsp_def to_lower_def)

lemma sameSite_no_semicolon: "59 \<notin> set (sameSite_lower x)" "59 \<notin> set (sameSite_capital x)"
  by (cases x; simp add: sameSite_lower_def sameSite_capital_def str_def)+

lemma setCookie_directives_no_semicolon:
  assumes "no_semicolon (path options)" and "no_semicolon (domain options)"
  shows "\<forall>x\<in>set (setCookie_directives now options). 59 \<notin> set x"
  using assms
  by (auto simp: setCookie_directives_def no_semicolon_def toUTCString_no_semicolon
      sameSite_no_semicolon str_def split: option.splits if_splits)

lemma header_directives_no_semicolon:
  assumes "no_semicolon (path options)" and "no_semicolon (domain options)"
  shows "\<forall>x\<in>set (header_directives now options). 59 \<notin> set x"
  using assms
  by (auto simp: header_directives_def no_semicolon_def toUTCString_no_semicolon
      sameSite_no_semicolon str_def split: option.splits if_splits)

lemma setCookie_directives_names:
  "str ''httponly'' \<notin> (\<lambda>x. fst (cookie_av (32 # x))) ` set (setCookie_directives now options)"
  by (auto simp: setCookie_directives_def directive_names split: option.splits if_splits)
    (simp_all add: str_def)

lemma header_directives_names:
  "str ''httponly'' \<in> (\<lambda>x. fst (cookie_av (32 # x))) ` set (header_directives now options) \<longleftrightarrow>
   httpOnly options"
  by (auto simp: header_directives_def directive_names split: option.splits if_splits)
    (simp_all add: str_def)

lemma encoded_pair_no_semicolon:
  assumes "encodeURIComponent a = Some n" and "encodeURIComponent b = Some v"
  shows "59 \<notin> set (n @ str ''='' @ v)"
proof -
  have "\<not> uri_safe 59" by (simp add: uri_safe_def uri_unreserved_def)
  then have "59 \<notin> set n" "59 \<notin> set v"
    using assms encodeURIComponent_safe by blast+
  then show ?thesis by (simp add: str_def)
qed

lemma encode_k: "encodeURIComponent (str ''k'') = Some (str ''k'')"
  by (simp add: str_def uri_unreserved_def)

lemma encode_v: "encodeURIComponent (str ''v'') = Some (str ''v'')"
  by (simp add: str_def uri_unreserved_def)

lemma encode_a: "encodeURIComponent (str ''a'') = Some (str ''a'')"
  by (simp add: str_def uri_unreserved_def)

lemma encode_b: "encodeURIComponent (str ''b'') = Some (str ''b'')"
  by (simp add: str_def uri_unreserved_def)

subsection \<open>Reading and writing the cookies of a document\<close>

lemma join_directives: "join (str ''; '') (x # xs) = x @ directives xs"
  by (induction xs arbitrary: x) (simp_all add: directives_Nil directives_Cons)

lemma dropWhile_hd: "xs = [] \<or> \<not> P (hd xs) \<Longrightarrow> dropWhile P xs = xs"
  by (cases xs) auto

lemma trim_id:
  assumes "s \<noteq> []" and "\<not> js_space (hd s)" and "\<not> js_space (last s)"
  shows "trim s = s" and "trim (32 # s) = s"
proof -
  have a: "dropWhile js_space s = s" using assms by (simp add: dropWhile_hd)
  have b: "dropWhile js_space (rev s) = rev s"
    using assms by (intro dropWhile_hd) (simp add: hd_rev)
  show "trim s = s" by (simp add: trim_def a b)
  have "js_space 32" by (simp add: js_space_def)
  then show "trim (32 # s) = s" by (simp add: trim_def a b)
qed

lemma well_formed_trim:
  assumes "well_formed c"
  shows "trim (c_name c @ str ''='' @ c_value c) = c_name c @ str ''='' @ c_value c"
    and "trim (32 # c_name c @ str ''='' @ c_value c) = c_name c @ str ''='' @ c_value c"
proof -
  let ?s = "c_name c @ str ''='' @ c_value c"
  have e: "\<not> js_space 61" by (simp add: js_space_def)
  have 1: "?s \<noteq> []" by (simp add: str_def)
  have 2: "\<not> js_space (hd ?s)" using assms by (simp add: well_formed_def)
  have 3: "\<not> js_space (last ?s)" using assms e by (auto simp: well_formed_def str_def)
  show "trim ?s = ?s" using 1 2 3 by (rule trim_id(1))
  show "trim (32 # ?s) = ?s" using 1 2 3 by (rule trim_id(2))
qed

lemma starts_with_name:
  fixes n m v :: ustring
  assumes "61 \<notin> set n" and "61 \<notin> set m"
  shows "take (length (n @ [61])) (m @ 61 # v) = n @ [61] \<longleftrightarrow> m = n"
proof
  assume "take (length (n @ [61])) (m @ 61 # v) = n @ [61]"
  then have "m @ 61 # v = (n @ [61]) @ drop (length (n @ [61])) (m @ 61 # v)"
    by (metis append_take_drop_id)
  then have "takeWhile (\<lambda>c. c \<noteq> 61) (m @ 61 # v) =
             takeWhile (\<lambda>c. c \<noteq> 61) (n @ 61 # drop (length (n @ [61])) (m @ 61 # v))"
    by simp
  moreover have "takeWhile (\<lambda>c. c \<noteq> 61) (m @ 61 # v) = m"
    using assms(2) by (auto simp: takeWhile_tail)
  moreover have "takeWhile (\<lambda>c. c \<noteq> 61) (n @ 61 # drop (length (n @ [61])) (m @ 61 # v)) = n"
    using assms(1) by (auto simp: takeWhile_tail)
  ultimately show "m = n" by simp
next
  assume "m = n"
  then show "take (length (n @ [61])) (m @ 61 # v) = n @ [61]" by simp
qed

lemma getCookie_loop_find:
  assumes "list_all2 (\<lambda>p c. trim p = c_name c @ 61 # c_value c) ps cs"
    and "\<forall>c\<in>set cs. 61 \<notin> set (c_name c)" and "61 \<notin> set n"
  shows "getCookie_loop (n @ [61]) ps =
           (case find (\<lambda>c. c_name c = n) cs of
              None \<Rightarrow> JNull
            | Some c \<Rightarrow> cookie_value (c_value c))"
  using assms(1,2)
proof (induction rule: list_all2_induct)
  case Nil
  then show ?case by simp
next
  case (Cons p ps c cs)
  have s: "take (length (n @ [61])) (trim p) = n @ [61] \<longleftrightarrow> c_name c = n"
    using Cons.hyps(1) Cons.prems assms(3) starts_with_name [of n "c_name c" "c_value c"]
    by simp
  show ?case
  proof (cases "c_name c = n")
    case True
    then have "drop (length (n @ [61])) (trim p) = c_value c"
      using Cons.hyps(1) by simp
    then show ?thesis
      using True s by (simp add: Let_def cookie_value_def del: length_append)
  next
    case False
    then show ?thesis
      using s Cons.IH Cons.prems by (simp add: Let_def del: length_append)
  qed
qed

lemma document_cookie_well_formed:
  assumes "cookies_well_formed d"
  shows "document_cookie d = join (str ''; '') (map (\<lambda>c. c_name c @ str ''='' @ c_value c) (listed d))"
proof -
  have "\<forall>x\<in>set (listed d). cookie_string x = c_name x @ str ''='' @ c_value x"
    using assms by (simp add: cookies_well_formed_def list_all_iff well_formed_def cookie_string_def)
  then have "map cookie_string (listed d) = map (\<lambda>c. c_name c @ str ''='' @ c_value c) (listed d)"
    by simp
  then show ?thesis by (simp only: document_cookie_def)
qed

lemma pieces_of_document_cookie:
  assumes "cookies_well_formed d" and "listed d \<noteq> []"
  shows "list_all2 (\<lambda>p c. trim p = c_name c @ 61 # c_value c)
           (split 59 (document_cookie d)) (listed d)"
proof -
  obtain c cs where l: "listed d = c # cs" using assms(2) by (cases "listed d") auto
  let ?ser = "\<lambda>c. c_name c @ str ''='' @ c_value c"
  have wf: "\<forall>x\<in>set (c # cs). well_formed x"
    using assms(1) l by (simp add: cookies_well_formed_def list_all_iff)
  have ns: "\<forall>x\<in>set (c # cs). 59 \<notin> set (?ser x)"
    using wf by (auto simp: well_formed_def str_def)
  have sp: "split 59 (document_cookie d) = ?ser c # map ((#) 32) (map ?ser cs)"
    using ns split_directives [of "?ser c" "map ?ser cs"]
    by (simp add: document_cookie_well_formed [OF assms(1)] l join_directives)
  have t: "\<forall>x\<in>set (c # cs). trim (?ser x) = c_name x @ 61 # c_value x \<and>
                              trim (32 # ?ser x) = c_name x @ 61 # c_value x"
    using wf well_formed_trim by (auto simp: str_def)
  have "list_all2 (\<lambda>p c. trim p = c_name c @ 61 # c_value c) (map ((#) 32) (map ?ser cs)) cs"
    using t by (auto simp: list_all2_conv_all_nth)
  then show ?thesis
    using t by (simp add: sp l)
qed

lemma getCookie_find:
  assumes "document w = Some d" and "cookies_well_formed d"
    and "encodeURIComponent name = Some n"
  shows "getCookie (Some w) name =
           (case find (\<lambda>c. c_name c = n) (listed d) of
              None \<Rightarrow> JNull
            | Some c \<Rightarrow> cookie_value (c_value c))"
proof -
  have "\<not> uri_safe 61" by (simp add: uri_safe_def uri_unreserved_def)
  then have n: "61 \<notin> set n" using assms(3) encodeURIComponent_safe by blast
  have g: "getCookie (Some w) name = getCookie_loop (n @ [61]) (split 59 (document_cookie d))"
    by (simp add: getCookie_def assms(1,3) str_def)
  show ?thesis
  proof (cases "listed d = []")
    case True
    then have "document_cookie d = []" by (simp add: document_cookie_def)
    then show ?thesis by (simp add: g True trim_def)
  next
    case False
    have "\<forall>c\<in>set (listed d). 61 \<notin> set (c_name c)"
      using assms(2) by (simp add: cookies_well_formed_def list_all_iff well_formed_def)
    then show ?thesis
      using getCookie_loop_find [OF pieces_of_document_cookie [OF assms(2) False] _ n]
      by (simp add: g)
  qed
qed








lemma request_path_slash: "take 1 (request_path d) = str ''/''"
  by (simp add: request_path_def str_def)

lemma visible_default_cookie:
  "visible d (default_cookie d n v ex) \<longleftrightarrow> \<not> expired (clock d) (default_cookie d n v ex)"
proof -
  have "path_match (request_path d) (str ''/'')"
    using request_path_slash [of d] by (auto simp: path_match_def str_def)
  then show ?thesis by (simp add: visible_def default_cookie_def)
qed

lemma visible_jar_update [simp]: "visible (d\<lparr>jar := j\<rparr>) = visible d"
  by (rule ext) (simp add: visible_def request_path_def)





























lemma listed_window_with:
  "listed (plain_document\<lparr>jar := [plain_cookie (str ''k'') r]\<rparr>) = [plain_cookie (str ''k'') r]"
proof -
  have "\<not> expired (clock plain_document) (default_cookie plain_document (str ''k'') r None)"
    by (simp add: expired_def default_cookie_def)
  then have "visible plain_document (plain_cookie (str ''k'') r)"
    by (simp add: plain_cookie_def visible_default_cookie)
  then show ?thesis by (simp add: listed_def)
qed

lemma JSON_parse_hello: "JSON_parse (str ''hello world'') = None"
  by (simp add: JSON_parse_def str_def is_digit_def)




lemma window_with_ok:
  assumes "59 \<notin> set r" and "r = [] \<or> \<not> js_space (last r)"
  shows "document (window_with r t) = Some (plain_document\<lparr>jar := [plain_cookie (str ''k'') r]\<rparr>)"
    and "well_formed (plain_cookie (str ''k'') r)"
    and "cookies_well_formed (plain_document\<lparr>jar := [plain_cookie (str ''k'') r]\<rparr>)"
    and "c_name (plain_cookie (str ''k'') r) = str ''k''"
    and "c_value (plain_cookie (str ''k'') r) = r"
proof -
  show "document (window_with r t) = Some (plain_document\<lparr>jar := [plain_cookie (str ''k'') r]\<rparr>)"
    by (simp add: window_with_def)
  show wf: "well_formed (plain_cookie (str ''k'') r)"
    using assms
    by (auto simp: well_formed_def plain_cookie_def default_cookie_def str_def js_space_def)
  show "cookies_well_formed (plain_document\<lparr>jar := [plain_cookie (str ''k'') r]\<rparr>)"
    using wf by (simp add: cookies_well_formed_def listed_window_with)
  show "c_name (plain_cookie (str ''k'') r) = str ''k''" "c_value (plain_cookie (str ''k'') r) = r"
    by (simp_all add: plain_cookie_def default_cookie_def)
qed

subsection \<open>A cookie among the cookies of a document\<close>








subsection \<open>The loop and the pairs of a header\<close>









subsection \<open>The pairs of \<open>document.cookie\<close>\<close>






subsection \<open>Numbers that rounding leaves as they are\<close>

lemma powi_less_cancel:
  assumes "(2::rat) powi a < 2 powi b"
  shows "a < b"
proof (rule ccontr)
  assume "\<not> a < b"
  then have "(2::rat) powi b \<le> 2 powi a" by (intro power_int_increasing) simp_all
  with assms show False by simp
qed

lemma bits_bounds: "0 < n \<Longrightarrow> 2 ^ (bits n - 1) \<le> n \<and> n < 2 ^ bits n"
proof (induction n rule: bits.induct)
  case (1 n)
  show ?case
  proof (cases "n div 2 \<le> 0")
    case True
    with 1(2) have "n = 1" by linarith
    then show ?thesis by (simp add: bits.simps)
  next
    case False
    then have h: "2 ^ (bits (n div 2) - 1) \<le> n div 2" "n div 2 < 2 ^ bits (n div 2)"
      using 1 by auto
    have b: "bits n = Suc (bits (n div 2))" using 1(2) by (simp add: bits.simps)
    have p: "0 < bits (n div 2)" using False by (simp add: bits.simps)
    then have "(2::int) ^ bits (n div 2) = 2 * 2 ^ (bits (n div 2) - 1)"
      by (cases "bits (n div 2)") simp_all
    then have "2 ^ bits (n div 2) \<le> n" using h(1) by linarith
    moreover have "n < 2 * 2 ^ bits (n div 2)" using h(2) by linarith
    ultimately show ?thesis by (simp add: b)
  qed
qed

lemma binade_less:
  assumes "0 < x" and "x < 2 powi k"
  shows "binade x < k"
proof -
  obtain p q where pq: "quotient_of x = (p, q)" by (cases "quotient_of x")
  then have q: "0 < q" and x: "x = of_int p / of_int q"
    using quotient_of_denom_pos quotient_of_div by auto
  have p: "0 < p" using assms(1) q x by (simp add: zero_less_divide_iff)
  let ?e = "int (bits p) - int (bits q)"
  show ?thesis
  proof (cases "2 powi ?e \<le> x")
    case True
    then have "(2::rat) powi ?e < 2 powi k" using assms(2) by linarith
    then have "?e < k" by (rule powi_less_cancel)
    then show ?thesis using True by (simp add: binade_def pq Let_def)
  next
    case False
    have bp: "0 < bits p" using p by (simp add: bits.simps)
    have "(2::int) ^ (bits p - 1) \<le> p" using bits_bounds [OF p] by simp
    then have a: "(2::rat) ^ (bits p - 1) \<le> of_int p"
      by (metis of_int_le_iff of_int_numeral of_int_power)
    have "q < 2 ^ bits q" using bits_bounds [OF q] by simp
    then have b: "of_int q < (2::rat) ^ bits q"
      by (metis of_int_less_iff of_int_numeral of_int_power)
    have "?e - 1 = int (bits p - 1) - int (bits q)" using bp by simp
    then have "(2::rat) powi (?e - 1) = 2 powi int (bits p - 1) / 2 powi int (bits q)"
      by (simp only: power_int_diff [of "2::rat", simplified])
    then have "(2::rat) powi (?e - 1) = 2 ^ (bits p - 1) / 2 ^ bits q"
      by (simp only: power_int_of_nat)
    also have "\<dots> \<le> of_int p / 2 ^ bits q"
      using a by (simp add: divide_right_mono)
    also have "\<dots> < of_int p / of_int q"
      using b p q by (simp add: divide_strict_left_mono)
    finally have "(2::rat) powi (?e - 1) < 2 powi k" using assms(2) x by simp
    then have "?e - 1 < k" by (rule powi_less_cancel)
    then show ?thesis using False by (simp add: binade_def pq Let_def)
  qed
qed

text \<open>\<open>binade\<close> is the exponent it is meant to be.\<close>

lemma binade_bounds:
  assumes "0 < x"
  shows "2 powi binade x \<le> x \<and> x < 2 powi (binade x + 1)"
proof -
  obtain p q where pq: "quotient_of x = (p, q)" by (cases "quotient_of x")
  then have q: "0 < q" and x: "x = of_int p / of_int q"
    using quotient_of_denom_pos quotient_of_div by auto
  have p: "0 < p" using assms(1) q x by (simp add: zero_less_divide_iff)
  let ?e = "int (bits p) - int (bits q)"
  have bp: "0 < bits p" using p by (simp add: bits.simps)
  have bq: "0 < bits q" using q by (simp add: bits.simps)
  have pl: "(2::rat) ^ (bits p - 1) \<le> of_int p"
    using bits_bounds [OF p] by (metis of_int_le_iff of_int_numeral of_int_power)
  have pu: "of_int p < (2::rat) ^ bits p"
    using bits_bounds [OF p] by (metis of_int_less_iff of_int_numeral of_int_power)
  have ql: "(2::rat) ^ (bits q - 1) \<le> of_int q"
    using bits_bounds [OF q] by (metis of_int_le_iff of_int_numeral of_int_power)
  have qu: "of_int q < (2::rat) ^ bits q"
    using bits_bounds [OF q] by (metis of_int_less_iff of_int_numeral of_int_power)
  have "?e - 1 = int (bits p - 1) - int (bits q)" using bp by simp
  then have "(2::rat) powi (?e - 1) = 2 powi int (bits p - 1) / 2 powi int (bits q)"
    by (simp only: power_int_diff [of "2::rat", simplified])
  then have "(2::rat) powi (?e - 1) = 2 ^ (bits p - 1) / 2 ^ bits q"
    by (simp only: power_int_of_nat)
  also have "\<dots> \<le> of_int p / 2 ^ bits q"
    using pl by (simp add: divide_right_mono)
  also have "\<dots> < of_int p / of_int q"
    using qu p q by (simp add: divide_strict_left_mono)
  finally have lower: "(2::rat) powi (?e - 1) < x" using x by simp
  have "?e + 1 = int (bits p) - int (bits q - 1)" using bq by simp
  then have "(2::rat) powi (?e + 1) = 2 powi int (bits p) / 2 powi int (bits q - 1)"
    by (simp only: power_int_diff [of "2::rat", simplified])
  then have "(2::rat) powi (?e + 1) = 2 ^ bits p / 2 ^ (bits q - 1)"
    by (simp only: power_int_of_nat)
  moreover have "of_int p / of_int q < (2::rat) ^ bits p / of_int q"
    using pu q by (simp add: divide_strict_right_mono)
  moreover have "(2::rat) ^ bits p / of_int q \<le> 2 ^ bits p / 2 ^ (bits q - 1)"
    using ql q by (simp add: divide_left_mono)
  ultimately have upper: "x < (2::rat) powi (?e + 1)" using x by simp
  show ?thesis
  proof (cases "2 powi ?e \<le> x")
    case True
    then have "binade x = ?e" by (simp add: binade_def pq Let_def)
    then show ?thesis using True upper by simp
  next
    case False
    then have "binade x = ?e - 1" by (simp add: binade_def pq Let_def)
    then show ?thesis using False lower by simp
  qed
qed

lemma round_half_even_of_int: "round_half_even (of_int n) = n"
  by (simp add: round_half_even_def)

text \<open>A whole multiple of a power of two with at most 53 binary digits is a number of the
  format, and rounding leaves it as it is.\<close>

lemma round64_exact:
  assumes "\<bar>m\<bar> < 2 ^ 53" and "- 1074 \<le> j" and "\<bar>of_int m * 2 powi j\<bar> < huge"
  shows "round64 (of_int m * 2 powi j) = Finite (of_int m * 2 powi j)"
proof (cases "m = 0")
  case True
  then show ?thesis by (simp add: round64_def)
next
  case False
  let ?x = "of_int m * (2::rat) powi j"
  have x0: "?x \<noteq> 0" using False by simp
  have ax: "\<bar>?x\<bar> = of_int \<bar>m\<bar> * 2 powi j" by (simp add: abs_mult)
  have "of_int \<bar>m\<bar> < (2::rat) ^ 53"
    using assms(1) by (metis of_int_less_iff of_int_numeral of_int_power)
  then have "\<bar>?x\<bar> < 2 ^ 53 * 2 powi j" by (simp add: ax)
  also have "\<dots> = 2 powi (53 + j)" by (simp add: power_int_add)
  finally have "binade \<bar>?x\<bar> < 53 + j" using x0 by (intro binade_less) simp_all
  then have "max (binade \<bar>?x\<bar>) (- 1022) - 52 \<le> j" using assms(2) by simp
  moreover define E where "E = max (binade \<bar>?x\<bar>) (- 1022) - 52"
  ultimately have E: "E \<le> j" by simp
  define d where "d = nat (j - E)"
  have "(2::rat) powi j = 2 powi (int d + E)" using E by (simp add: d_def)
  also have "\<dots> = 2 powi (int d) * 2 powi E" by (rule power_int_add) simp
  also have "\<dots> = 2 ^ d * 2 powi E" by simp
  finally have j: "(2::rat) powi j = 2 ^ d * 2 powi E" .
  have pos: "0 < (2::rat) powi E" by simp
  have ax': "\<bar>?x\<bar> = of_int (\<bar>m\<bar> * 2 ^ d) * 2 powi E"
    by (simp add: j abs_mult power_int_abs)
  have "\<bar>?x\<bar> / 2 powi E = of_int (\<bar>m\<bar> * 2 ^ d)"
    unfolding ax' using pos by simp
  then have r: "of_int (round_half_even (\<bar>?x\<bar> / 2 powi E)) * 2 powi E = \<bar>?x\<bar>"
    by (simp only: round_half_even_of_int ax')
  have "0 < \<bar>?x\<bar>" using x0 by simp
  moreover have "\<bar>?x\<bar> < 2 powi 1024" using assms(3) by (simp only: huge_def)
  ultimately have "binade \<bar>?x\<bar> < 1024" by (rule binade_less)
  then have h: "\<not> 1024 \<le> binade \<bar>?x\<bar>" by simp
  have s: "(if 0 < ?x then \<bar>?x\<bar> else - \<bar>?x\<bar>) = ?x" by (simp add: abs_if)
  have "round64 ?x =
        (let q = 2 powi E; r = of_int (round_half_even (\<bar>?x\<bar> / q)) * q
         in if 1024 \<le> binade r then (if 0 < ?x then PlusInfinity else MinusInfinity)
            else Finite (if 0 < ?x then r else - r))"
    using x0 unfolding round64_def E_def by (simp only: if_False)
  also have "\<dots> = Finite ?x"
    unfolding Let_def r using h s by (simp only: if_False)
  finally show ?thesis .
qed

lemma below_huge:
  assumes "\<bar>x\<bar> < 18446744073709551616"
  shows "\<bar>x\<bar> < huge"
proof -
  have "(2::rat) powi 64 < 2 powi 1024" by (rule power_int_strict_increasing) simp_all
  moreover have "(2::rat) powi 64 = 18446744073709551616" by simp
  ultimately have "18446744073709551616 < huge" by (simp only: huge_def)
  with assms show ?thesis by (rule less_trans)
qed

lemma round64_whole:
  assumes "\<bar>k\<bar> < 2 ^ 53"
  shows "round64 (of_int k) = Finite (of_int k)"
proof -
  have "\<bar>rat_of_int k\<bar> < 2 ^ 53"
    using assms by (metis of_int_abs of_int_less_iff of_int_numeral of_int_power)
  then have "\<bar>rat_of_int k\<bar> < 18446744073709551616" by simp
  then have "\<bar>rat_of_int k\<bar> < huge" by (rule below_huge)
  then have "\<bar>rat_of_int k * 2 powi 0\<bar> < huge" by simp
  from round64_exact [OF assms _ this] show ?thesis by simp
qed

lemma times64_whole:
  assumes "\<bar>a * b\<bar> < 2 ^ 53"
  shows "times64 (Finite (of_int a)) (Finite (of_int b)) = Finite (of_int (a * b))"
proof -
  have "times64 (Finite (of_int a)) (Finite (of_int b)) = round64 (of_int a * of_int b)"
    by (simp add: times64_def)
  also have "of_int a * of_int b = rat_of_int (a * b)" by simp
  also have "round64 (of_int (a * b)) = Finite (of_int (a * b))"
    using assms by (rule round64_whole)
  finally show ?thesis .
qed

lemma times64_whole_1024:
  assumes "a * b = m * 1024" and "\<bar>m\<bar> < 2 ^ 53"
  shows "times64 (Finite (of_int a)) (Finite (of_int b)) = Finite (of_int (a * b))"
proof -
  have e: "rat_of_int m * 2 powi 10 = of_int (m * 1024)" by simp
  have "\<bar>rat_of_int m\<bar> < 2 ^ 53"
    using assms(2) by (metis of_int_abs of_int_less_iff of_int_numeral of_int_power)
  then have "\<bar>rat_of_int (m * 1024)\<bar> < 18446744073709551616" by (simp add: abs_mult)
  then have "\<bar>rat_of_int (m * 1024)\<bar> < huge" by (rule below_huge)
  then have "\<bar>rat_of_int m * 2 powi 10\<bar> < huge" by (simp only: e)
  from round64_exact [OF assms(2) _ this]
  have r: "round64 (of_int (m * 1024)) = Finite (of_int (m * 1024))" by (simp only: e)
  have "times64 (Finite (of_int a)) (Finite (of_int b)) = round64 (of_int a * of_int b)"
    by (simp add: times64_def)
  also have "of_int a * of_int b = rat_of_int (a * b)" by simp
  finally show ?thesis by (simp only: assms(1) r)
qed

lemma plus64_whole:
  assumes "\<bar>a + b\<bar> < 2 ^ 53"
  shows "plus64 (Finite (of_int a)) (Finite (of_int b)) = Finite (of_int (a + b))"
proof -
  have "plus64 (Finite (of_int a)) (Finite (of_int b)) = round64 (of_int a + of_int b)"
    by (simp add: plus64_def)
  also have "of_int a + of_int b = rat_of_int (a + b)" by simp
  also have "round64 (of_int (a + b)) = Finite (of_int (a + b))"
    using assms by (rule round64_whole)
  finally show ?thesis .
qed

text \<open>A whole number of days from a time, where both times are times of a \<open>Date\<close>: each
  product and the sum are exact.\<close>

lemma whole_days:
  assumes "\<bar>now\<bar> \<le> 8640000000000000" and "\<bar>now + k * 86400000\<bar> \<le> 8640000000000000"
  shows "days_from now (Finite (of_int k)) = Finite (of_int (now + k * 86400000))"
proof -
  have k: "\<bar>k\<bar> \<le> 200000000" using assms by linarith
  have n: "(24::rat) = of_int 24" "(60::rat) = of_int 60" "(1000::rat) = of_int 1000"
    by simp_all
  have a: "times64 (Finite (of_int k)) (Finite (of_int 24)) = Finite (of_int (k * 24))"
    using k by (intro times64_whole) simp
  have b: "times64 (Finite (of_int (k * 24))) (Finite (of_int 60)) = Finite (of_int (k * 24 * 60))"
    using k by (intro times64_whole) simp
  have c: "times64 (Finite (of_int (k * 24 * 60))) (Finite (of_int 60)) =
           Finite (of_int (k * 24 * 60 * 60))"
    using k by (intro times64_whole) simp
  have d: "times64 (Finite (of_int (k * 24 * 60 * 60))) (Finite (of_int 1000)) =
           Finite (of_int (k * 24 * 60 * 60 * 1000))"
    using k by (intro times64_whole_1024 [where m = "k * 84375"]) simp_all
  have s: "now + k * 24 * 60 * 60 * 1000 = now + k * 86400000" by simp
  have e: "plus64 (Finite (of_int now)) (Finite (of_int (k * 24 * 60 * 60 * 1000))) =
           Finite (of_int (now + k * 24 * 60 * 60 * 1000))"
    using assms(2) by (intro plus64_whole) (simp only: s, simp)
  show ?thesis by (simp only: days_from_def n a b c d e s)
qed

lemma time_clip_whole:
  "\<bar>t\<bar> \<le> 8640000000000000 \<Longrightarrow> time_clip (Finite (of_int t)) = Date t"
proof -
  assume "\<bar>t\<bar> \<le> 8640000000000000"
  then have "\<bar>rat_of_int t\<bar> \<le> 8640000000000000"
    by (metis of_int_abs of_int_le_iff of_int_numeral)
  then show ?thesis by (simp add: time_clip_def trunc_def)
qed

lemma a_week_after_now_0: "toUTCString (Date (0 + 7 * 86400000)) = str ''Thu, 08 Jan 1970 00:00:00 GMT''"
  by code_simp

lemma a_third_of_a_day:
  "days_from 0 (Finite (6004799503160661 / 18014398509481984)) = Finite 28800000"
  by code_simp

lemma eight_hours: "toUTCString (time_clip (Finite 28800000)) = str ''Thu, 01 Jan 1970 08:00:00 GMT''"
  by code_simp

subsection \<open>What \<open>getCookie\<close> reads\<close>

lemma getCookie_loop_matched:
  "getCookie_loop nameEQ ps =
     (case find (\<lambda>p. take (length nameEQ) p = nameEQ) (map trim ps) of
        None \<Rightarrow> JNull
      | Some p \<Rightarrow> cookie_value (drop (length nameEQ) p))"
  by (induction ps) (simp_all add: Let_def cookie_value_def)

lemma getCookie_matched:
  assumes "document w = Some d"
  shows "getCookie (Some w) name =
           (case matched_text d name of None \<Rightarrow> JNull | Some r \<Rightarrow> cookie_value r)"
proof (cases "encodeURIComponent name")
  case None
  then show ?thesis by (simp add: getCookie_def assms matched_text_def)
next
  case (Some n)
  have l: "length (n @ str ''='') = length n + 1" by (simp add: str_def)
  show ?thesis
    by (simp add: getCookie_def assms matched_text_def Some getCookie_loop_matched l
        split: option.splits del: length_append)
qed

lemma JSON_parse_hello_space: "JSON_parse (str ''hello'' @ [160]) = None"
  by (simp add: JSON_parse_def str_def is_digit_def)

lemma JSON_parse_hello_alone: "JSON_parse (str ''hello'') = None"
  by (simp add: JSON_parse_def str_def is_digit_def)

subsection \<open>A write with the default options, step by step\<close>










subsection \<open>The empty name\<close>









section \<open>The adapters without a browser\<close>

text \<open>
  Claim C4. Where no browser context is present (no \<open>window\<close>, or a \<open>window\<close> without
  the document and without the store, so that \<open>isBrowser\<close> returns false in both adapters),
  every method returns, none is left by a fault, and each gives its neutral default: the reads
  \<open>getCookie\<close> and \<open>getItem\<close> return \<open>null\<close>, \<open>getAllCookies\<close> and \<open>getAllKeys\<close> return empty
  collections, \<open>hasItem\<close> and \<open>hasCookie\<close> are false, \<open>getLength\<close> is 0, and the writes
  \<open>setCookie\<close>, \<open>removeCookie\<close>, \<open>setItem\<close>, \<open>removeItem\<close> and \<open>clear\<close> leave the environment
  as it is. No method has a result that stands for a fault.
\<close>

theorem no_browser_context_defaults:
  assumes "\<not> isBrowser e" and "storage_isBrowser sv e = Inr False"
  shows "getCookie e name = JNull \<and> getItem sv e key = Inr JNull \<and>
         getAllCookies e = Map.empty \<and> getAllKeys sv e = Inr [] \<and>
         hasItem sv e key = Inr False \<and> getLength sv e = Inr 0 \<and>
         setCookie e name value options = e \<and> setItem sv e key value = Inr e \<and>
         removeItem sv e key = Inr e \<and> clear sv e = Inr e \<and>
         removeCookie e name options = e \<and> \<not> hasCookie e name"
  using assms
  by (auto simp: isBrowser_def storage_isBrowser_def getCookie_def getItem_def getAllCookies_def
      getAllKeys_def hasItem_def getLength_def setCookie_def setItem_def removeItem_def clear_def
      removeCookie_def hasCookie_def split: option.splits access.splits)

theorem no_browser_context_defaults_witness:
  "\<not> isBrowser None \<and> storage_isBrowser SessionStorageService None = Inr False \<and>
   getCookie None (str ''token'') = JNull \<and>
   getItem SessionStorageService None (str ''token'') = Inr JNull \<and>
   getAllCookies None = Map.empty \<and> getAllKeys SessionStorageService None = Inr [] \<and>
   hasItem SessionStorageService None (str ''token'') = Inr False \<and>
   getLength SessionStorageService None = Inr 0 \<and>
   setCookie None (str ''token'') (JStr (str ''abc'')) no_options = None \<and>
   setItem SessionStorageService None (str ''token'') (JStr (str ''abc'')) = Inr None \<and>
   removeItem SessionStorageService None (str ''token'') = Inr None \<and>
   clear SessionStorageService None = Inr None"
proof -
  have a: "\<not> isBrowser None" by (simp add: isBrowser_def)
  have b: "storage_isBrowser SessionStorageService None = Inr False"
    by (simp add: storage_isBrowser_def)
  show ?thesis
    using a b
      no_browser_context_defaults [OF a b, of "str ''token''" "str ''token''"
        "JStr (str ''abc'')" no_options]
    by simp
qed

section \<open>A stored \<open>null\<close>\<close>

text \<open>
  Claim C9. In a browser whose store takes the write, \<open>setItem(key, null)\<close> stores the text
  \<open>null\<close>; afterwards \<open>hasItem(key)\<close> is true while \<open>getItem(key)\<close> returns \<open>null\<close>, the value
  that also stands for "not found". This holds for both storage services.
\<close>

theorem stored_null_has_but_get_null:
  assumes "e = Some w" and "the_storage sv w = Gives st"
    and "has_room st (AList.update key (str ''null'') (items st))"
  shows "and_then (setItem sv e key JNull) (\<lambda>e'. Inr (raw_item sv e' key)) =
           Inr (Some (str ''null'')) \<and>
         and_then (setItem sv e key JNull) (\<lambda>e'. hasItem sv e' key) = Inr True \<and>
         and_then (setItem sv e key JNull) (\<lambda>e'. getItem sv e' key) = Inr JNull"
proof -
  let ?st' = "st\<lparr>items := AList.update key (str ''null'') (items st)\<rparr>"
  have s: "Storage_setItem st key (str ''null'') = Some ?st'"
    using assms(3) by (simp add: Storage_setItem_def)
  have e': "setItem sv e key JNull = Inr (Some (with_storage sv w ?st'))"
    using assms(1,2) s by (simp add: setItem_def to_string_def)
  have g: "Storage_getItem ?st' key = Some (str ''null'')"
    using s by (rule Storage_getItem_setItem)
  show ?thesis
    by (simp add: e' and_then_def raw_item_def hasItem_def getItem_def the_storage_with_storage g
        JSON_parse_null)
qed

theorem stored_null_has_but_get_null_witness:
  "and_then (setItem LocalStorageService (Some empty_window) (str ''k'') JNull)
     (\<lambda>e'. Inr (raw_item LocalStorageService e' (str ''k''))) = Inr (Some (str ''null'')) \<and>
   and_then (setItem LocalStorageService (Some empty_window) (str ''k'') JNull)
     (\<lambda>e'. hasItem LocalStorageService e' (str ''k'')) = Inr True \<and>
   and_then (setItem LocalStorageService (Some empty_window) (str ''k'') JNull)
     (\<lambda>e'. getItem LocalStorageService e' (str ''k'')) = Inr JNull"
  by (rule stored_null_has_but_get_null
      [of "Some empty_window" empty_window LocalStorageService
        "\<lparr>items = [], has_room = (\<lambda>xs. True)\<rparr>" "str ''k''"])
    (simp_all add: empty_window_def the_storage_def)

section \<open>A header built and read again\<close>

text \<open>
  Claim C7. The header that \<open>createSetCookieHeader("k", "v", {})\<close> builds is \<open>k=v; Path=/\<close>,
  and \<open>parseCookiesFromHeader\<close> reads from it a mapping in which the key \<open>k\<close> has the value
  \<open>v\<close>, at whatever time the header is built.
\<close>

theorem header_round_trip:
  "parseCookiesFromHeader
     (Some (createSetCookieHeader now (str ''k'') (JStr (str ''v'')) no_options)) (str ''k'') =
   Some (str ''v'')"
proof -
  have k: "encodeURIComponent (str ''k'') = Some (str ''k'')"
    by (simp add: str_def uri_unreserved_def)
  have v: "encodeURIComponent (str ''v'') = Some (str ''v'')"
    by (simp add: str_def uri_unreserved_def)
  have h: "createSetCookieHeader now (str ''k'') (JStr (str ''v'')) no_options =
           str ''k=v; Path=/''"
    unfolding createSetCookieHeader_def no_options_def stringValue_def to_string_def
    by (simp add: k v) (simp add: str_def)
  have p: "parseCookiesFromHeader (Some (str ''k=v; Path=/'')) (str ''k'') = Some (str ''v'')"
    by (simp add: parseCookiesFromHeader_def str_def trim_def js_space_def
        decodeURIComponent_def set_property_def)
  show ?thesis by (simp only: h p)
qed

section \<open>A key that occurs twice\<close>




section \<open>The expiry directive\<close>

text \<open>
  Claim C5, as the code has it. For every numeric expiry \<open>n\<close> other than 0 and \<open>NaN\<close> and
  every name and value that can be encoded, the string that \<open>setCookie\<close> composes starts
  with \<open>name=value\<close> and the directive \<open>expires\<close> with the time that the code computes, as
  \<open>toUTCString\<close> prints it: the sum \<open>now + n * 24 * 60 * 60 * 1000\<close> with each product and
  the sum rounded as the operators of the language do, cut to a whole number by \<open>setTime\<close>,
  and no time (\<open>Invalid Date\<close>) where the sum is not finite or beyond the range of a
  \<open>Date\<close>. The string of \<open>createSetCookieHeader\<close> does so with \<open>Expires\<close>. When no path is given,
  the directive \<open>path=/\<close> (\<open>Path=/\<close> in the header) comes next. For a whole number \<open>k\<close> of
  days, with \<open>now\<close> and \<open>now + k\<close> days in the range of a \<open>Date\<close>, the time is \<open>now + k\<close> days
  exactly. For the numbers 0 and \<open>NaN\<close> both strings are what they are without the option.
\<close>

theorem numeric_expiry_directive:
  assumes "expires options = Some (Days n)"
    and "encodeURIComponent name = Some en"
    and "encodeURIComponent (to_string (stringValue value)) = Some ev"
  shows "(n \<noteq> Finite 0 \<and> n \<noteq> NaN \<longrightarrow>
            (\<exists>cookieString.
               setCookie_cookieString now name value options = Some cookieString \<and>
               prefix
                 (en @ str ''='' @ ev @ str ''; expires='' @
                  toUTCString
                    (time_clip
                       (plus64 (Finite (of_int now))
                          (times64 (times64 (times64 (times64 n (Finite 24)) (Finite 60))
                             (Finite 60)) (Finite 1000)))) @
                  (if path options = None then str ''; path=/'' else []))
                 cookieString) \<and>
            prefix
              (en @ str ''='' @ ev @ str ''; Expires='' @
               toUTCString
                 (time_clip
                    (plus64 (Finite (of_int now))
                       (times64 (times64 (times64 (times64 n (Finite 24)) (Finite 60))
                          (Finite 60)) (Finite 1000)))) @
               (if path options = None then str ''; Path=/'' else []))
              (createSetCookieHeader now name value options)) \<and>
         (n = Finite (of_int k) \<and> \<bar>now\<bar> \<le> 8640000000000000 \<and>
          \<bar>now + k * 86400000\<bar> \<le> 8640000000000000 \<longrightarrow>
            time_clip
              (plus64 (Finite (of_int now))
                 (times64 (times64 (times64 (times64 n (Finite 24)) (Finite 60))
                    (Finite 60)) (Finite 1000))) =
            Date (now + k * 86400000)) \<and>
         (n = Finite 0 \<or> n = NaN \<longrightarrow>
            setCookie_cookieString now name value options =
              setCookie_cookieString now name value (options\<lparr>expires := None\<rparr>) \<and>
            createSetCookieHeader now name value options =
              createSetCookieHeader now name value (options\<lparr>expires := None\<rparr>))"
proof (intro conjI impI)
  assume g: "n \<noteq> Finite 0 \<and> n \<noteq> NaN"
  then have g: "expires_given (Some (Days n))" by (simp add: expires_given_def to_boolean_def)
  have d: "expiresDate now (Days n) =
           time_clip
             (plus64 (Finite (of_int now))
                (times64 (times64 (times64 (times64 n (Finite 24)) (Finite 60))
                   (Finite 60)) (Finite 1000)))"
    by (simp only: expiresDate_def expiry.case days_from_def)
  show "\<exists>cookieString.
          setCookie_cookieString now name value options = Some cookieString \<and>
          prefix
            (en @ str ''='' @ ev @ str ''; expires='' @
             toUTCString
               (time_clip
                  (plus64 (Finite (of_int now))
                     (times64 (times64 (times64 (times64 n (Finite 24)) (Finite 60))
                        (Finite 60)) (Finite 1000)))) @
             (if path options = None then str ''; path=/'' else []))
            cookieString"
    unfolding d [symmetric]
    by (simp add: setCookie_cookieString_def assms g split: option.splits)
  show "prefix
          (en @ str ''='' @ ev @ str ''; Expires='' @
           toUTCString
             (time_clip
                (plus64 (Finite (of_int now))
                   (times64 (times64 (times64 (times64 n (Finite 24)) (Finite 60))
                      (Finite 60)) (Finite 1000)))) @
           (if path options = None then str ''; Path=/'' else []))
          (createSetCookieHeader now name value options)"
    unfolding d [symmetric]
    by (simp add: createSetCookieHeader_def assms g split: option.splits)
next
  assume a: "n = Finite (of_int k) \<and> \<bar>now\<bar> \<le> 8640000000000000 \<and>
             \<bar>now + k * 86400000\<bar> \<le> 8640000000000000"
  then have "days_from now n = Finite (of_int (now + k * 86400000))"
    using whole_days [of now k] by simp
  then have "time_clip (days_from now n) = Date (now + k * 86400000)"
    using a time_clip_whole [of "now + k * 86400000"] by simp
  then show "time_clip
               (plus64 (Finite (of_int now))
                  (times64 (times64 (times64 (times64 n (Finite 24)) (Finite 60))
                     (Finite 60)) (Finite 1000))) =
             Date (now + k * 86400000)"
    by (simp only: days_from_def)
next
  assume "n = Finite 0 \<or> n = NaN"
  then have g: "\<not> expires_given (Some (Days n))"
    by (auto simp: expires_given_def to_boolean_def)
  show "setCookie_cookieString now name value options =
          setCookie_cookieString now name value (options\<lparr>expires := None\<rparr>)"
    by (simp add: setCookie_cookieString_def assms g)
  show "createSetCookieHeader now name value options =
          createSetCookieHeader now name value (options\<lparr>expires := None\<rparr>)"
    by (simp add: createSetCookieHeader_def assms g)
qed

theorem numeric_expiry_directive_witness:
  "(\<exists>cookieString.
      setCookie_cookieString 0 (str ''a'') (JStr (str ''b'')) week_options = Some cookieString \<and>
      prefix (str ''a=b; expires=Thu, 08 Jan 1970 00:00:00 GMT; path=/'') cookieString) \<and>
   prefix (str ''a=b; Expires=Thu, 08 Jan 1970 00:00:00 GMT; Path=/'')
     (createSetCookieHeader 0 (str ''a'') (JStr (str ''b'')) week_options) \<and>
   (\<exists>cookieString.
      setCookie_cookieString 0 (str ''a'') (JStr (str ''b'')) third_options = Some cookieString \<and>
      prefix (str ''a=b; expires=Thu, 01 Jan 1970 08:00:00 GMT; path=/'') cookieString) \<and>
   prefix (str ''a=b; Expires=Thu, 01 Jan 1970 08:00:00 GMT; Path=/'')
     (createSetCookieHeader 0 (str ''a'') (JStr (str ''b'')) third_options)"
proof -
  let ?t = "6004799503160661 / 18014398509481984 :: rat"
  have a: "expires week_options = Some (Days (Finite 7))" by (simp add: week_options_def)
  have a': "expires third_options = Some (Days (Finite ?t))"
    by (simp add: third_options_def)
  have d: "encodeURIComponent (to_string (stringValue (JStr (str ''b'')))) = Some (str ''b'')"
    by (simp add: stringValue_def to_string_def encode_b)
  have p: "path week_options = None" "path third_options = None"
    by (simp_all add: week_options_def third_options_def)
  have e: "str ''a'' @ str ''='' @ str ''b'' @ str ''; expires='' @
             str ''Thu, 08 Jan 1970 00:00:00 GMT'' @ str ''; path=/'' =
           str ''a=b; expires=Thu, 08 Jan 1970 00:00:00 GMT; path=/''"
    "str ''a'' @ str ''='' @ str ''b'' @ str ''; Expires='' @
       str ''Thu, 08 Jan 1970 00:00:00 GMT'' @ str ''; Path=/'' =
     str ''a=b; Expires=Thu, 08 Jan 1970 00:00:00 GMT; Path=/''"
    "str ''a'' @ str ''='' @ str ''b'' @ str ''; expires='' @
             str ''Thu, 01 Jan 1970 08:00:00 GMT'' @ str ''; path=/'' =
           str ''a=b; expires=Thu, 01 Jan 1970 08:00:00 GMT; path=/''"
    "str ''a'' @ str ''='' @ str ''b'' @ str ''; Expires='' @
       str ''Thu, 01 Jan 1970 08:00:00 GMT'' @ str ''; Path=/'' =
     str ''a=b; Expires=Thu, 01 Jan 1970 08:00:00 GMT; Path=/''"
    by (simp_all add: str_def)
  have n7: "Finite 7 \<noteq> Finite 0 \<and> Finite 7 \<noteq> NaN" by simp
  have nt: "Finite ?t \<noteq> Finite 0 \<and> Finite ?t \<noteq> NaN" by simp
  have k7: "Finite 7 = Finite (of_int 7) \<and> \<bar>0::int\<bar> \<le> 8640000000000000 \<and>
            \<bar>0 + 7 * 86400000 :: int\<bar> \<le> 8640000000000000"
    by simp
  note w = numeric_expiry_directive [OF a encode_a d, of 0 7]
  note t = numeric_expiry_directive [OF a' encode_a d, of 0 0]
  from w k7 have w2:
    "time_clip
       (plus64 (Finite (of_int 0))
          (times64 (times64 (times64 (times64 (Finite 7) (Finite 24)) (Finite 60))
             (Finite 60)) (Finite 1000))) =
     Date (0 + 7 * 86400000)"
    by blast
  have t2:
    "time_clip
       (plus64 (Finite (of_int 0))
          (times64 (times64 (times64 (times64 (Finite ?t) (Finite 24)) (Finite 60))
             (Finite 60)) (Finite 1000))) =
     time_clip (Finite 28800000)"
    using a_third_of_a_day by (simp only: days_from_def)
  from w n7 have w1:
    "(\<exists>cookieString.
        setCookie_cookieString 0 (str ''a'') (JStr (str ''b'')) week_options = Some cookieString \<and>
        prefix (str ''a=b; expires=Thu, 08 Jan 1970 00:00:00 GMT; path=/'') cookieString) \<and>
     prefix (str ''a=b; Expires=Thu, 08 Jan 1970 00:00:00 GMT; Path=/'')
       (createSetCookieHeader 0 (str ''a'') (JStr (str ''b'')) week_options)"
    by (simp only: w2 a_week_after_now_0 p if_True e simp_thms)
  from t nt have t1:
    "(\<exists>cookieString.
        setCookie_cookieString 0 (str ''a'') (JStr (str ''b'')) third_options = Some cookieString \<and>
        prefix (str ''a=b; expires=Thu, 01 Jan 1970 08:00:00 GMT; path=/'') cookieString) \<and>
     prefix (str ''a=b; Expires=Thu, 01 Jan 1970 08:00:00 GMT; Path=/'')
       (createSetCookieHeader 0 (str ''a'') (JStr (str ''b'')) third_options)"
    by (simp only: t2 eight_hours p if_True e simp_thms)
  show ?thesis using w1 t1 by (simp only: simp_thms)
qed

text \<open>For the expiry 0 the test \<open>if (options.expires)\<close> fails, and neither string has a
  directive \<open>expires\<close>: the claim does not hold for every number.\<close>

theorem zero_days_counterexample:
  "setCookie_cookieString 1000 (str ''a'') (JStr (str ''b'')) zero_days_options =
     Some (str ''a=b; path=/'') \<and>
   createSetCookieHeader 1000 (str ''a'') (JStr (str ''b'')) zero_days_options =
     str ''a=b; Path=/'' \<and>
   \<not> has_attribute (str ''expires'') (attributes (str ''a=b; path=/'')) \<and>
   \<not> has_attribute (str ''expires'') (attributes (str ''a=b; Path=/''))"
proof -
  have s: "setCookie_cookieString 1000 (str ''a'') (JStr (str ''b'')) zero_days_options =
           Some (str ''a=b; path=/'')"
    by (simp add: setCookie_cookieString_def zero_days_options_def stringValue_def to_string_def
        encode_a encode_b expires_given_def to_boolean_def) (simp add: str_def)
  have h: "createSetCookieHeader 1000 (str ''a'') (JStr (str ''b'')) zero_days_options =
           str ''a=b; Path=/''"
    by (simp add: createSetCookieHeader_def zero_days_options_def stringValue_def to_string_def
        encode_a encode_b expires_given_def to_boolean_def) (simp add: str_def)
  have a: "\<not> has_attribute (str ''expires'') (attributes (str ''a=b; path=/''))"
    "\<not> has_attribute (str ''expires'') (attributes (str ''a=b; Path=/''))"
    by (simp_all add: has_attribute_def attributes_def cookie_av_def trim_wsp_def wsp_def
        to_lower_def str_def)
  show ?thesis by (simp only: s h a simp_thms)
qed

section \<open>The directive \<open>HttpOnly\<close>\<close>

text \<open>
  Claim C8, as the code has it. When the path and the domain of the options contain no
  semicolon and the name and the value can be encoded, the string of
  \<open>createSetCookieHeader\<close> has the attribute \<open>HttpOnly\<close> exactly if \<open>options.httpOnly\<close> is
  set, and the string that \<open>setCookie\<close> composes and writes has no such attribute. An
  attribute is what the browser reads between two semicolons, its name taken without
  regard to case.
\<close>

theorem httpOnly_only_from_header:
  assumes "no_semicolon (path options)" and "no_semicolon (domain options)"
    and "encodeURIComponent name \<noteq> None"
    and "encodeURIComponent (to_string (stringValue value)) \<noteq> None"
  shows "(has_attribute (str ''httponly'') (attributes (createSetCookieHeader now name value options))
            \<longleftrightarrow> httpOnly options) \<and>
         (\<exists>cookieString. setCookie_cookieString now name value options = Some cookieString \<and>
            \<not> has_attribute (str ''httponly'') (attributes cookieString))"
proof -
  from assms(3,4) obtain n v where
    n: "encodeURIComponent name = Some n" and
    v: "encodeURIComponent (to_string (stringValue value)) = Some v"
    by auto
  have nv: "59 \<notin> set (n @ str ''='' @ v)"
    using n v by (rule encoded_pair_no_semicolon)
  have h: "attributes (createSetCookieHeader now name value options) =
           map (\<lambda>x. cookie_av (32 # x)) (header_directives now options)"
    using attributes_directives [OF nv header_directives_no_semicolon [OF assms(1,2)]]
    by (simp add: createSetCookieHeader_directives n v)
  have s: "setCookie_cookieString now name value options =
           Some (n @ str ''='' @ v @ directives (setCookie_directives now options))"
    by (simp add: setCookie_cookieString_directives n v)
  have a: "attributes (n @ str ''='' @ v @ directives (setCookie_directives now options)) =
           map (\<lambda>x. cookie_av (32 # x)) (setCookie_directives now options)"
    using attributes_directives [OF nv setCookie_directives_no_semicolon [OF assms(1,2)]]
    by simp
  show ?thesis
    using header_directives_names [of now options] setCookie_directives_names [of now options]
    by (simp add: h s a has_attribute_def image_image)
qed

theorem httpOnly_only_from_header_witness:
  "no_semicolon (path strict_options) \<and> no_semicolon (domain strict_options) \<and>
   encodeURIComponent (str ''k'') \<noteq> None \<and>
   encodeURIComponent (to_string (stringValue (JStr (str ''v'')))) \<noteq> None \<and>
   httpOnly strict_options \<and>
   has_attribute (str ''httponly'')
     (attributes (createSetCookieHeader 0 (str ''k'') (JStr (str ''v'')) strict_options)) \<and>
   (\<exists>cookieString.
      setCookie_cookieString 0 (str ''k'') (JStr (str ''v'')) strict_options = Some cookieString \<and>
      \<not> has_attribute (str ''httponly'') (attributes cookieString))"
proof -
  have a: "no_semicolon (path strict_options)" "no_semicolon (domain strict_options)"
    by (simp_all add: no_semicolon_def strict_options_def str_def)
  have b: "encodeURIComponent (str ''k'') \<noteq> None"
    "encodeURIComponent (to_string (stringValue (JStr (str ''v'')))) \<noteq> None"
    by (simp_all add: encode_k encode_v stringValue_def to_string_def)
  have c: "httpOnly strict_options" by (simp add: strict_options_def)
  show ?thesis
    using httpOnly_only_from_header [OF a b, of 0] a b c by simp
qed

text \<open>The path and the domain go into both strings as they are. A path that carries a
  semicolon brings its own directive: with the path \<open>/; HttpOnly\<close> both strings have the
  attribute although \<open>httpOnly\<close> is not set.\<close>

theorem httpOnly_injected_counterexample:
  "\<not> httpOnly injected_options \<and>
   createSetCookieHeader 0 (str ''k'') (JStr (str ''v'')) injected_options =
     str ''k=v; Path=/; HttpOnly'' \<and>
   has_attribute (str ''httponly'')
     (attributes (createSetCookieHeader 0 (str ''k'') (JStr (str ''v'')) injected_options)) \<and>
   setCookie_cookieString 0 (str ''k'') (JStr (str ''v'')) injected_options =
     Some (str ''k=v; path=/; HttpOnly'') \<and>
   has_attribute (str ''httponly'') (attributes (str ''k=v; path=/; HttpOnly''))"
proof -
  have h: "createSetCookieHeader 0 (str ''k'') (JStr (str ''v'')) injected_options =
           str ''k=v; Path=/; HttpOnly''"
    by (simp add: createSetCookieHeader_def injected_options_def stringValue_def to_string_def
        encode_k encode_v) (simp add: str_def)
  have s: "setCookie_cookieString 0 (str ''k'') (JStr (str ''v'')) injected_options =
           Some (str ''k=v; path=/; HttpOnly'')"
    by (simp add: setCookie_cookieString_def injected_options_def stringValue_def to_string_def
        encode_k encode_v) (simp add: str_def)
  have a: "has_attribute (str ''httponly'') (attributes (str ''k=v; Path=/; HttpOnly''))"
    by (simp add: has_attribute_def attributes_def cookie_av_def trim_wsp_def wsp_def
        to_lower_def str_def)
  have b: "has_attribute (str ''httponly'') (attributes (str ''k=v; path=/; HttpOnly''))"
    by (simp add: has_attribute_def attributes_def cookie_av_def trim_wsp_def wsp_def
        to_lower_def str_def)
  show ?thesis by (simp add: h s a b) (simp add: injected_options_def)
qed

section \<open>Values that are empty or hold an equals sign\<close>




section \<open>Writing a value and reading it back\<close>




section \<open>A stored text that is no JSON\<close>

text \<open>
  Claim C3, as the code has it. Let \<open>t\<close> be a text that \<open>JSON.parse\<close> refuses. If \<open>t\<close> is the
  text a store holds under a key, \<open>getItem\<close> returns \<open>null\<close>. If \<open>t\<close> is the decoding of what
  \<open>getCookie\<close> reads for a name from \<open>document.cookie\<close>, the rest of the first piece that
  without the white space around it starts with the encoded name and \<open>=\<close>, \<open>getCookie\<close>
  returns the string \<open>t\<close>; where the cookies that the document shows are well formed, this
  is the decoded value of the cookie that the document shows first under the name.
\<close>

theorem text_that_is_no_JSON:
  assumes "JSON_parse t = None"
  shows "(document w = Some d \<and> matched_text d name = Some r \<and>
          decodeURIComponent r = Some t \<longrightarrow>
            getCookie (Some w) name = JStr t) \<and>
         (document w = Some d \<and> cookies_well_formed d \<and> cookie_text d name = Some t \<longrightarrow>
            getCookie (Some w) name = JStr t) \<and>
         (raw_item sv e key = Some t \<longrightarrow> getItem sv e key = Inr JNull)"
proof (intro conjI impI)
  assume "document w = Some d \<and> matched_text d name = Some r \<and> decodeURIComponent r = Some t"
  then show "getCookie (Some w) name = JStr t"
    using getCookie_matched [of w d name] by (simp add: cookie_value_def assms)
next
  assume a: "document w = Some d \<and> cookies_well_formed d \<and> cookie_text d name = Some t"
  then obtain n c where n: "encodeURIComponent name = Some n"
    and f: "find (\<lambda>c. c_name c = n) (listed d) = Some c"
    and dv: "decodeURIComponent (c_value c) = Some t"
    by (auto simp: cookie_text_def split: option.splits)
  show "getCookie (Some w) name = JStr t"
    using getCookie_find [of w d name n] a n
    by (simp add: f cookie_value_def dv assms)
next
  assume "raw_item sv e key = Some t"
  then show "getItem sv e key = Inr JNull"
    using assms by (auto simp: raw_item_def getItem_def split: option.splits access.splits)
qed

theorem text_that_is_no_JSON_witness:
  "JSON_parse (str ''hello world'') = None \<and>
   matched_text (plain_document\<lparr>jar := [plain_cookie (str ''k'') (str ''hello%20world'')]\<rparr>)
     (str ''k'') = Some (str ''hello%20world'') \<and>
   cookie_text (plain_document\<lparr>jar := [plain_cookie (str ''k'') (str ''hello%20world'')]\<rparr>)
     (str ''k'') = Some (str ''hello world'') \<and>
   getCookie (Some (window_with (str ''hello%20world'') (str ''hello world''))) (str ''k'') =
     JStr (str ''hello world'') \<and>
   raw_item LocalStorageService (Some (window_with (str ''hello%20world'') (str ''hello world'')))
     (str ''k'') = Some (str ''hello world'') \<and>
   getItem LocalStorageService (Some (window_with (str ''hello%20world'') (str ''hello world'')))
     (str ''k'') = Inr JNull"
proof -
  let ?r = "str ''hello%20world''" and ?t = "str ''hello world''"
  let ?d = "plain_document\<lparr>jar := [plain_cookie (str ''k'') ?r]\<rparr>"
  have r: "59 \<notin> set ?r" "?r = [] \<or> \<not> js_space (last ?r)"
    by (simp_all add: str_def js_space_def)
  have dv: "decodeURIComponent ?r = Some ?t"
    by (simp add: decodeURIComponent_def str_def hex_octet_def unhex_def decode_from_numeral)
  have ct: "cookie_text ?d (str ''k'') = Some ?t"
    by (simp add: cookie_text_def encode_k listed_window_with window_with_ok(4,5) [OF r] dv)
  have dc: "document_cookie ?d = str ''k=hello%20world''"
    by (simp add: document_cookie_def listed_window_with)
      (simp add: cookie_string_def plain_cookie_def default_cookie_def str_def)
  have mt: "matched_text ?d (str ''k'') = Some ?r"
    by (simp add: matched_text_def encode_k dc) (simp add: str_def trim_def js_space_def)
  have ri: "raw_item LocalStorageService (Some (window_with ?r ?t)) (str ''k'') = Some ?t"
    by (simp add: raw_item_def window_with_def the_storage_def Storage_getItem_def)
  show ?thesis
    using text_that_is_no_JSON [OF JSON_parse_hello, where w = "window_with ?r ?t" and d = ?d
        and name = "str ''k''" and r = ?r and sv = LocalStorageService
        and e = "Some (window_with ?r ?t)" and key = "str ''k''"]
      JSON_parse_hello ct mt dv ri window_with_ok(1) [OF r, of ?t] window_with_ok(3) [OF r]
    by simp
qed

text \<open>The claim as the specification words it has \<open>getCookie\<close> yield the stored text. The
  cookie \<open>k\<close> with the value \<open>hello\<close> and a no-break space (160) after it holds a text that is
  no JSON, and \<open>getCookie\<close> returns \<open>hello\<close> without the space: \<open>trim\<close> has taken it from the
  piece.\<close>

theorem trimmed_value_counterexample:
  "cookie_text (plain_document\<lparr>jar := [plain_cookie (str ''k'') (str ''hello'' @ [160])]\<rparr>)
     (str ''k'') = Some (str ''hello'' @ [160]) \<and>
   JSON_parse (str ''hello'' @ [160]) = None \<and>
   getCookie (Some (window_with (str ''hello'' @ [160]) [])) (str ''k'') = JStr (str ''hello'') \<and>
   getCookie (Some (window_with (str ''hello'' @ [160]) [])) (str ''k'') \<noteq>
     JStr (str ''hello'' @ [160])"
proof -
  let ?r = "str ''hello'' @ [160]"
  let ?d = "plain_document\<lparr>jar := [plain_cookie (str ''k'') ?r]\<rparr>"
  have ct: "cookie_text ?d (str ''k'') = Some ?r"
    by (simp add: cookie_text_def encode_k listed_window_with)
      (simp add: plain_cookie_def default_cookie_def decodeURIComponent_def str_def)
  have dc: "document_cookie ?d = str ''k=hello'' @ [160]"
    by (simp add: document_cookie_def listed_window_with)
      (simp add: cookie_string_def plain_cookie_def default_cookie_def str_def)
  have mt: "matched_text ?d (str ''k'') = Some (str ''hello'')"
    by (simp add: matched_text_def encode_k dc) (simp add: str_def trim_def js_space_def)
  have "decodeURIComponent (str ''hello'') = Some (str ''hello'')"
    by (simp add: decodeURIComponent_def str_def)
  then have cv: "cookie_value (str ''hello'') = JStr (str ''hello'')"
    by (simp add: cookie_value_def JSON_parse_hello_alone)
  have w: "document (window_with ?r []) = Some ?d" by (simp add: window_with_def)
  have g: "getCookie (Some (window_with ?r [])) (str ''k'') = JStr (str ''hello'')"
    using getCookie_matched [OF w, of "str ''k''"] by (simp add: mt cv)
  have ne: "str ''hello'' \<noteq> str ''hello'' @ [160]" by simp
  show ?thesis by (simp only: ct JSON_parse_hello_space g simp_thms) (simp add: ne)
qed

section \<open>Removing what was written\<close>




end
